theory Spec2Isabelle
  imports Complex_Main "HOL-Library.Word"
begin

section \<open>Hypertable expansion: the planner side of chunk exclusion\<close>

text \<open>
  A shallow embedding of \<^verbatim>\<open>src/plan_expand_hypertable.c\<close>. Expression nodes are a
  datatype, planner structures are records, catalog lookups of the PostgreSQL backend are
  fields of one record of functions, and every \<^verbatim>\<open>ereport(ERROR)\<close>, \<^verbatim>\<open>elog(ERROR)\<close>,
  failed \<^verbatim>\<open>Assert\<close> and read that C leaves undefined is a value of type \<open>error\<close>.
\<close>

subsection \<open>Identifiers, constants of PostgreSQL, errors\<close>

type_synonym Oid = nat
type_synonym int32 = "32 word"
type_synonym int64 = "64 word"

definition InvalidOid :: Oid where
  "InvalidOid = 0"

definition OidIsValid :: "Oid \<Rightarrow> bool" where
  "OidIsValid objectId = (objectId \<noteq> InvalidOid)"

definition TIMESTAMPTZOID :: Oid where
  "TIMESTAMPTZOID = 1184"

definition INTERVALOID :: Oid where
  "INTERVALOID = 1186"

definition PG_CATALOG_NAMESPACE :: Oid where
  "PG_CATALOG_NAMESPACE = 11"

definition BTLessStrategyNumber :: nat where
  "BTLessStrategyNumber = 1"

definition BTLessEqualStrategyNumber :: nat where
  "BTLessEqualStrategyNumber = 2"

definition BTEqualStrategyNumber :: nat where
  "BTEqualStrategyNumber = 3"

definition BTGreaterEqualStrategyNumber :: nat where
  "BTGreaterEqualStrategyNumber = 4"

definition BTGreaterStrategyNumber :: nat where
  "BTGreaterStrategyNumber = 5"

definition USECS_PER_DAY :: int64 where
  "USECS_PER_DAY = 86400000000"

definition NAMEDATALEN :: nat where
  "NAMEDATALEN = 64"

datatype sqlerrcode =
    ERRCODE_INVALID_PARAMETER_VALUE
  | ERRCODE_FEATURE_NOT_SUPPORTED
  | ERRCODE_INTERNAL_ERROR

datatype errarg = ArgInt int32 | ArgStr string | ArgOid Oid

text \<open>
  \<open>Ereport code fmt args\<close> is an error of level ERROR with its SQL error code, its format
  string and the arguments of the format (\<^verbatim>\<open>elog(ERROR, ...)\<close> and an \<^verbatim>\<open>ereport\<close> without
  \<^verbatim>\<open>errcode\<close> carry the internal error code). \<open>AssertFailure\<close> is a failed \<^verbatim>\<open>Assert\<close> of a
  build with assertion checking. \<open>Undefined\<close> stands for what C leaves undefined: the first
  or second cell of a list that is too short, a node read as a node type it does not have,
  a datum read as a pointer to a type it does not hold.
\<close>

datatype error =
    Ereport sqlerrcode string "errarg list"
  | AssertFailure string
  | Undefined string

subsection \<open>Expression nodes\<close>

record Interval =
  time :: int64
  day :: int32
  month :: int32

text \<open>
  A datum is a word passed by value, or a pointer to an interval, or a pointer to a
  one-dimensional array of 4-byte integers with its NULL bitmap (an element is \<open>None\<close>
  where the bitmap marks it NULL).
\<close>

datatype Datum =
    ValueDatum int64
  | IntervalDatum Interval
  | ArrayDatum "int32 option list"

text \<open>
  The node types the file distinguishes, with the fields it reads or writes:
  \<open>Var varno varattno vartype varlevelsup\<close>,
  \<open>Const consttype consttypmod constcollid constvalue constisnull\<close>,
  \<open>FuncExpr funcid funcresulttype funccollid inputcollid args\<close>,
  \<open>OpExpr opno opfuncid opresulttype opretset opcollid inputcollid args\<close>, and
  \<open>OtherExpr type word children\<close> for every other expression node, \<open>word\<close> being the 4
  bytes that follow its node tag (the \<^verbatim>\<open>paramkind\<close> of a \<^verbatim>\<open>Param\<close>, for one).
\<close>

datatype Expr =
    Var nat int Oid nat
  | Const Oid int32 Oid Datum bool
  | FuncExpr Oid Oid Oid Oid "Expr list"
  | OpExpr Oid Oid Oid bool Oid Oid "Expr list"
  | OtherExpr Oid nat "Expr list"

fun IsA_Var :: "Expr \<Rightarrow> bool" where
  "IsA_Var (Var _ _ _ _) = True"
| "IsA_Var _ = False"

fun IsA_Const :: "Expr \<Rightarrow> bool" where
  "IsA_Const (Const _ _ _ _ _) = True"
| "IsA_Const _ = False"

fun IsA_FuncExpr :: "Expr \<Rightarrow> bool" where
  "IsA_FuncExpr (FuncExpr _ _ _ _ _) = True"
| "IsA_FuncExpr _ = False"

fun IsA_OpExpr :: "Expr \<Rightarrow> bool" where
  "IsA_OpExpr (OpExpr _ _ _ _ _ _ _) = True"
| "IsA_OpExpr _ = False"

fun exprType :: "Expr \<Rightarrow> Oid" where
  "exprType (Var _ _ vartype _) = vartype"
| "exprType (Const consttype _ _ _ _) = consttype"
| "exprType (FuncExpr _ funcresulttype _ _ _) = funcresulttype"
| "exprType (OpExpr _ _ opresulttype _ _ _ _) = opresulttype"
| "exprType (OtherExpr ty _ _) = ty"

text \<open>\<^verbatim>\<open>pull_varnos\<close>: the range-table indexes of the variables of the current query level.\<close>

fun pull_varnos :: "Expr \<Rightarrow> nat set" where
  "pull_varnos (Var varno _ _ varlevelsup) = (if varlevelsup = 0 then {varno} else {})"
| "pull_varnos (Const _ _ _ _ _) = {}"
| "pull_varnos (FuncExpr _ _ _ _ args) = \<Union> (set (map pull_varnos args))"
| "pull_varnos (OpExpr _ _ _ _ _ _ args) = \<Union> (set (map pull_varnos args))"
| "pull_varnos (OtherExpr _ _ args) = \<Union> (set (map pull_varnos args))"

text \<open>\<^verbatim>\<open>linitial\<close> and \<^verbatim>\<open>lsecond\<close> dereference a list cell; on a shorter list the cell is NULL.\<close>

fun linitial :: "'a list \<Rightarrow> error + 'a" where
  "linitial [] = Inl (Undefined ''linitial of a list without a first cell'')"
| "linitial (x # _) = Inr x"

fun lsecond :: "'a list \<Rightarrow> error + 'a" where
  "lsecond (_ # y # _) = Inr y"
| "lsecond _ = Inl (Undefined ''lsecond of a list without a second cell'')"

text \<open>\<^verbatim>\<open>make_opclause\<close> and \<^verbatim>\<open>makeFuncExpr\<close> of PostgreSQL's \<^verbatim>\<open>makefuncs.c\<close>.\<close>

definition make_opclause :: "Oid \<Rightarrow> Oid \<Rightarrow> bool \<Rightarrow> Expr \<Rightarrow> Expr \<Rightarrow> Oid \<Rightarrow> Oid \<Rightarrow> Expr" where
  "make_opclause opno opresulttype opretset leftop rightop opcollid inputcollid =
     OpExpr opno InvalidOid opresulttype opretset opcollid inputcollid [leftop, rightop]"

definition makeFuncExpr :: "Oid \<Rightarrow> Oid \<Rightarrow> Expr list \<Rightarrow> Oid \<Rightarrow> Oid \<Rightarrow> Expr" where
  "makeFuncExpr funcid rettype args funccollid inputcollid =
     FuncExpr funcid rettype funccollid inputcollid args"

subsection \<open>Planner structures\<close>

datatype JoinTree =
    RangeTblRef nat
  | FromExpr "JoinTree list" "Expr list"
  | JoinExpr JoinTree JoinTree "Expr list"

datatype RowMarkType =
    ROW_MARK_EXCLUSIVE
  | ROW_MARK_NOKEYEXCLUSIVE
  | ROW_MARK_SHARE
  | ROW_MARK_KEYSHARE
  | ROW_MARK_REFERENCE
  | ROW_MARK_COPY

record PlanRowMark =
  rti :: nat
  markType :: RowMarkType

text \<open>\<^verbatim>\<open>RowMarkRequiresRowShareLock(marktype)\<close> is \<^verbatim>\<open>((marktype) <= ROW_MARK_KEYSHARE)\<close>.\<close>

fun RowMarkRequiresRowShareLock :: "RowMarkType \<Rightarrow> bool" where
  "RowMarkRequiresRowShareLock ROW_MARK_EXCLUSIVE = True"
| "RowMarkRequiresRowShareLock ROW_MARK_NOKEYEXCLUSIVE = True"
| "RowMarkRequiresRowShareLock ROW_MARK_SHARE = True"
| "RowMarkRequiresRowShareLock ROW_MARK_KEYSHARE = True"
| "RowMarkRequiresRowShareLock ROW_MARK_REFERENCE = False"
| "RowMarkRequiresRowShareLock ROW_MARK_COPY = False"

text \<open>\<^verbatim>\<open>get_plan_rowmark\<close>: the first row mark of the list for the range-table index.\<close>

definition get_plan_rowmark :: "PlanRowMark list \<Rightarrow> nat \<Rightarrow> PlanRowMark option" where
  "get_plan_rowmark rowmarks rtindex = find (\<lambda>rc. rti rc = rtindex) rowmarks"

record RangeTblEntry =
  rte_relid :: Oid
  rte_relkind :: char
  inh :: bool
  ctename :: "string option"
  requiredPerms :: nat
  securityQuals :: "Expr list"

text \<open>
  Of a query the file reads the range table, the join tree, whether there are row-mark
  clauses (each given by its range-table index) and sort clauses (each given by its
  sort-group reference), and the result relation (0 when there is none).
\<close>

record Query =
  rtable :: "RangeTblEntry list"
  jointree :: JoinTree
  rowMarks :: "nat list"
  resultRelation :: nat
  sortClause :: "nat list"

record TimescaleDBPrivate =
  appends_ordered :: bool

record PartitionSchemeData =
  partnatts :: nat
  strategy :: char

record RelOptInfo =
  relid :: nat
  fdw_private :: "TimescaleDBPrivate option"
  nparts :: nat
  part_scheme :: "PartitionSchemeData option"
  partexprs :: "Expr list list"
  nullable_partexprs :: "Expr list list"

record AppendRelInfo =
  parent_relid :: nat
  child_relid :: nat
  parent_reltype :: Oid
  child_reltype :: Oid
  translated_vars :: "Expr list"
  parent_reloid :: Oid

text \<open>
  The two arrays of the planner are lists of \<open>simple_rel_array_size\<close> slots; \<open>None\<close> is a
  slot that holds NULL or that \<^verbatim>\<open>repalloc\<close> added and nothing wrote yet.
\<close>

record PlannerInfo =
  parse :: Query
  plan_rowMarks :: "PlanRowMark list"
  limit_tuples :: real
  qual_security_level :: nat
  simple_rel_array_size :: nat
  simple_rel_array :: "RelOptInfo option list"
  simple_rte_array :: "RangeTblEntry option list"
  append_rel_list :: "AppendRelInfo list"

record RestrictInfo =
  clause :: Expr
  is_pushed_down :: bool
  outerjoin_delayed :: bool
  pseudoconstant :: bool
  security_level :: nat
  required_relids :: "nat set"

text \<open>
  A dimension has the attribute number of its column and, when it has a partitioning
  function, the expression of that function.
\<close>

record Dimension =
  column_attno :: int
  partitioning :: "Expr option"

record Hypertable =
  ht_id :: int32
  ht_table_name :: string
  main_table_relid :: Oid
  dimensions :: "Dimension list"

definition num_dimensions :: "Hypertable \<Rightarrow> nat" where
  "num_dimensions ht = length (dimensions ht)"

record Chunk =
  hypertable_id :: int32
  table_id :: Oid

record TypeCacheEntry =
  type_id :: Oid
  btree_opf :: Oid

text \<open>Of an open relation: its kind, its row type, whether it is another session's temporary table.\<close>

record Relation =
  rd_relkind :: char
  rd_reltype :: Oid
  is_other_temp :: bool

record pg_attribute =
  atttypid :: Oid
  atttypmod :: int
  attcollation :: Oid

record pg_proc_entry =
  proname :: string
  pronamespace_name :: string
  proargtypes :: "Oid list"
  pro_oid :: Oid

subsection \<open>The backend: catalog lookups, planner services, settings\<close>

text \<open>
  What the file calls and does not define is a field of the backend: PostgreSQL's
  \<^verbatim>\<open>lsyscache\<close> lookups (an invalid identifier or \<open>None\<close> when the catalog has no entry), the
  extension's own lookups \<^verbatim>\<open>get_operator\<close>, \<^verbatim>\<open>get_cast_func\<close> and \<^verbatim>\<open>ts_chunk_get_by_id\<close>,
  the planner's \<^verbatim>\<open>estimate_expression_value\<close>, the inheritance registry, \<^verbatim>\<open>heap_open\<close>
  (\<open>None\<close> where it raises because there is no such relation), the attribute cache, the
  translation of a parent's columns to a child's, the table of functions, the two settings
  the file reads, and whether the build checks assertions.
\<close>

record Backend =
  get_commutator :: "Oid \<Rightarrow> Oid"
  type_btree_opf :: "Oid \<Rightarrow> Oid"
  get_op_opfamily_strategy :: "Oid \<Rightarrow> Oid \<Rightarrow> nat"
  get_operator :: "string \<Rightarrow> Oid \<Rightarrow> Oid \<Rightarrow> Oid \<Rightarrow> Oid"
  get_op_rettype :: "Oid \<Rightarrow> Oid"
  get_cast_func :: "Oid \<Rightarrow> Oid \<Rightarrow> Oid"
  get_func_name :: "Oid \<Rightarrow> string option"
  estimate_expression_value :: "PlannerInfo \<Rightarrow> Expr \<Rightarrow> Expr"
  ts_chunk_get_by_id :: "int32 \<Rightarrow> Chunk option"
  find_inheritance_children :: "Oid \<Rightarrow> nat \<Rightarrow> Oid list"
  heap_open :: "Oid \<Rightarrow> Relation option"
  SearchSysCacheAttNum :: "Oid \<Rightarrow> int \<Rightarrow> pg_attribute option"
  ts_make_inh_translation_list :: "Relation \<Rightarrow> Relation \<Rightarrow> nat \<Rightarrow> Expr list"
  pg_proc :: "pg_proc_entry list"
  ts_guc_disable_optimizations :: bool
  ts_guc_enable_ordered_append :: bool
  USE_ASSERT_CHECKING :: bool

text \<open>
  The range-exclusion capability (\<^verbatim>\<open>hypertable_restrict_info.h\<close>) and the ordered-append
  check (\<^verbatim>\<open>plan_ordered_append.h\<close>), over whatever state \<open>'h\<close> the capability keeps.
  \<open>ts_ordered_append_should_optimize\<close> is \<open>None\<close> where the C function returns false, and
  \<open>Some reverse\<close> where it returns true and has stored \<open>reverse\<close> through its last argument.
\<close>

record 'h RangeExclusion =
  ts_hypertable_restrict_info_create :: "RelOptInfo \<Rightarrow> Hypertable \<Rightarrow> 'h"
  ts_hypertable_restrict_info_add :: "'h \<Rightarrow> PlannerInfo \<Rightarrow> RestrictInfo list \<Rightarrow> 'h"
  ts_hypertable_restrict_info_has_restrictions :: "'h \<Rightarrow> bool"
  ts_hypertable_restrict_info_get_chunk_oids :: "'h \<Rightarrow> Hypertable \<Rightarrow> nat \<Rightarrow> Oid list"
  ts_hypertable_restrict_info_get_chunk_oids_ordered ::
    "'h \<Rightarrow> Hypertable \<Rightarrow> nat \<Rightarrow> bool \<Rightarrow> Oid list"
  ts_ordered_append_should_optimize :: "PlannerInfo \<Rightarrow> RelOptInfo \<Rightarrow> Hypertable \<Rightarrow> bool option"

definition NoLock :: nat where
  "NoLock = 0"

definition AccessShareLock :: nat where
  "AccessShareLock = 1"

text \<open>\<^verbatim>\<open>lookup_type_cache(type, TYPECACHE_BTREE_OPFAMILY)\<close>: the entry of the requested type.\<close>

definition lookup_type_cache :: "Backend \<Rightarrow> Oid \<Rightarrow> TypeCacheEntry" where
  "lookup_type_cache be ty = \<lparr>type_id = ty, btree_opf = type_btree_opf be ty\<rparr>"

subsection \<open>The predicate rewriter: \<^verbatim>\<open>transform_time_bucket_comparison\<close>\<close>

text \<open>
  \<^verbatim>\<open>DatumGetIntervalP(width->constvalue)\<close>: the interval a datum points to. A datum that is
  not a pointer to an interval (the zero datum of a NULL constant among them) has none.
\<close>

fun DatumGetIntervalP :: "Datum \<Rightarrow> Interval option" where
  "DatumGetIntervalP (IntervalDatum iv) = Some iv"
| "DatumGetIntervalP _ = None"

text \<open>
  Lines 181-182 of the source test \<^verbatim>\<open>DatumGetIntervalP(width)->month == 0\<close> and
  \<^verbatim>\<open>DatumGetIntervalP(width)->day != 0\<close>: the pointer converted is the \<^verbatim>\<open>Const\<close> node
  itself, not its \<^verbatim>\<open>constvalue\<close> (lines 196 and 234 pass \<^verbatim>\<open>width->constvalue\<close>). The two
  reads therefore return the 4 bytes at offsets 12 and 8 of the node. PostgreSQL declares
  \<^verbatim>\<open>Interval\<close> as \<^verbatim>\<open>{int64 time; int32 day; int32 month;}\<close> and \<^verbatim>\<open>Const\<close> as
  \<^verbatim>\<open>{NodeTag type; Oid consttype; int32 consttypmod; Oid constcollid; ...}\<close>, four fields of
  4 bytes each, so the bytes read as \<^verbatim>\<open>month\<close> are the node's \<^verbatim>\<open>constcollid\<close> and the bytes
  read as \<^verbatim>\<open>day\<close> are its \<^verbatim>\<open>consttypmod\<close>.
\<close>

definition node_as_interval_month :: "int32 \<Rightarrow> Oid \<Rightarrow> int32" where
  "node_as_interval_month consttypmod constcollid = word_of_nat constcollid"

definition node_as_interval_day :: "int32 \<Rightarrow> Oid \<Rightarrow> int32" where
  "node_as_interval_day consttypmod constcollid = consttypmod"

text \<open>
  Lines 195-198: \<^verbatim>\<open>interval->time += interval->day * USECS_PER_DAY; interval->day = 0\<close>, on
  the interval of a copy of the constant. \<^verbatim>\<open>day\<close> is a 32-bit integer converted to 64 bits
  for the product; 64-bit arithmetic wraps.
\<close>

definition merge_day_into_time :: "Interval \<Rightarrow> Interval" where
  "merge_day_into_time iv = iv\<lparr>time := time iv + scast (day iv) * USECS_PER_DAY, day := 0\<rparr>"

text \<open>
  \<^verbatim>\<open>width\<close> is declared \<^verbatim>\<open>Const *\<close> and assigned the first argument of the bucket call,
  whatever node that is. \<^verbatim>\<open>width->consttype\<close> is the 4 bytes that follow the node tag: the
  \<^verbatim>\<open>consttype\<close> of a \<^verbatim>\<open>Const\<close>, the \<^verbatim>\<open>varno\<close> of a \<^verbatim>\<open>Var\<close>, the \<^verbatim>\<open>funcid\<close> of a
  \<^verbatim>\<open>FuncExpr\<close>, the \<^verbatim>\<open>opno\<close> of an \<^verbatim>\<open>OpExpr\<close>, each the first field that PostgreSQL
  declares after the tag.
\<close>

fun read_consttype :: "Expr \<Rightarrow> Oid" where
  "read_consttype (Var varno _ _ _) = varno"
| "read_consttype (Const consttype _ _ _ _) = consttype"
| "read_consttype (FuncExpr funcid _ _ _ _) = funcid"
| "read_consttype (OpExpr opno _ _ _ _ _ _) = opno"
| "read_consttype (OtherExpr _ word _) = word"

text \<open>
  Lines 181-199. The fields of the width are read only when the type of the type cache entry
  is \<^verbatim>\<open>TIMESTAMPTZOID\<close>, and past \<^verbatim>\<open>consttype\<close> only when that is \<^verbatim>\<open>INTERVALOID\<close>: the
  conjunction of line 181 stops at its first false operand, so that a width of another
  column type, or one that does not read as an interval, is kept as it is. A node that is
  not a constant and whose first field happens to be the number of the interval type is
  read further as a constant: line 182 takes bytes of its other fields and of its padding
  for a month and a day, and lines 196 and 234 take a pointer from them.
\<close>

fun adjust_width :: "TypeCacheEntry \<Rightarrow> Expr \<Rightarrow> error + Expr" where
  "adjust_width tce (Const consttype consttypmod constcollid constvalue constisnull) =
     (if type_id tce = TIMESTAMPTZOID \<and> consttype = INTERVALOID \<and>
         node_as_interval_month consttypmod constcollid = 0 \<and>
         node_as_interval_day consttypmod constcollid \<noteq> 0
      then (case DatumGetIntervalP constvalue of
              None \<Rightarrow> Inl (Undefined ''constvalue read as an interval'')
            | Some iv \<Rightarrow>
                Inr (Const consttype consttypmod constcollid
                       (IntervalDatum (merge_day_into_time iv)) constisnull))
      else Inr (Const consttype consttypmod constcollid constvalue constisnull))"
| "adjust_width tce width =
     (if type_id tce = TIMESTAMPTZOID \<and> read_consttype width = INTERVALOID
      then Inl (Undefined ''width read as a Const'')
      else Inr width)"

text \<open>Lines 216-225: the cast back to the type of the comparison; \<open>None\<close> where no cast exists.\<close>

definition cast_to_type :: "Backend \<Rightarrow> TypeCacheEntry \<Rightarrow> Oid \<Rightarrow> Expr \<Rightarrow> Expr option" where
  "cast_to_type be tce resulttype subst =
     (if type_id tce \<noteq> resulttype
      then (let cast_func = get_cast_func be resulttype (type_id tce)
            in if \<not> OidIsValid cast_func then None
               else Some (makeFuncExpr cast_func (type_id tce) [subst] InvalidOid InvalidOid))
      else Some subst)"

text \<open>
  Lines 227-238: the sum is evaluated at plan time only for a pure time interval. The test
  of line 227 reads the width as line 181 does.
\<close>

fun fold_constant :: "Backend \<Rightarrow> PlannerInfo \<Rightarrow> TypeCacheEntry \<Rightarrow> Expr \<Rightarrow> Expr \<Rightarrow> error + Expr" where
  "fold_constant be planner tce (Const consttype consttypmod constcollid constvalue constisnull) subst =
     (if type_id tce = TIMESTAMPTZOID \<and> consttype = INTERVALOID
      then (case DatumGetIntervalP constvalue of
              None \<Rightarrow> Inl (Undefined ''constvalue read as an interval'')
            | Some iv \<Rightarrow>
                if day iv = 0 \<and> month iv = 0
                then Inr (estimate_expression_value be planner subst)
                else Inr subst)
      else Inr subst)"
| "fold_constant be planner tce width subst =
     (if type_id tce = TIMESTAMPTZOID \<and> read_consttype width = INTERVALOID
      then Inl (Undefined ''width read as a Const'')
      else Inr subst)"

text \<open>
  Lines 168-252, the branch of the less and less-or-equal strategies. \<open>op\<close> is the
  comparison as it came in, \<open>opno\<close> and \<open>opfuncid\<close> are the operator of the result (lines
  245-249), \<open>column\<close> is \<^verbatim>\<open>lsecond(time_bucket->args)\<close>.
\<close>

definition transform_less :: "Backend \<Rightarrow> PlannerInfo \<Rightarrow> TypeCacheEntry \<Rightarrow> Expr \<Rightarrow> Oid \<Rightarrow> Oid \<Rightarrow>
    Oid \<Rightarrow> bool \<Rightarrow> Oid \<Rightarrow> Oid \<Rightarrow> Expr \<Rightarrow> Expr \<Rightarrow> error + Expr \<Rightarrow> error + Expr" where
  "transform_less be planner tce op opno opfuncid opresulttype opretset opcollid inputcollid
       val width column =
     (let subst_opno = get_operator be ''+'' PG_CATALOG_NAMESPACE (exprType val) (exprType width)
      in if \<not> OidIsValid subst_opno then Inr op
         else case adjust_width tce width of
                Inl e \<Rightarrow> Inl e
              | Inr width' \<Rightarrow>
                  (let resulttype = get_op_rettype be subst_opno;
                       subst = make_opclause subst_opno (type_id tce) False val width'
                                 InvalidOid InvalidOid
                   in case cast_to_type be tce resulttype subst of
                        None \<Rightarrow> Inr op
                      | Some subst' \<Rightarrow>
                          (case fold_constant be planner tce width' subst' of
                             Inl e \<Rightarrow> Inl e
                           | Inr subst'' \<Rightarrow>
                               (case column of
                                  Inl e \<Rightarrow> Inl e
                                | Inr col \<Rightarrow>
                                    Inr (OpExpr opno opfuncid opresulttype opretset opcollid
                                           inputcollid [col, subst''])))))"

text \<open>
  The whole function. The comparison is an \<^verbatim>\<open>OpExpr\<close> (the parameter's type); its first two
  arguments are \<open>left\<close> and \<open>right\<close>. \<^verbatim>\<open>castNode(FuncExpr, ...)\<close> asserts the node type in a
  build with assertion checking and is a plain pointer cast otherwise.
\<close>

fun transform_time_bucket_comparison :: "Backend \<Rightarrow> PlannerInfo \<Rightarrow> Expr \<Rightarrow> error + Expr" where
  "transform_time_bucket_comparison be planner
       (OpExpr op_opno op_opfuncid opresulttype opretset opcollid inputcollid (left # right # others)) =
     (case (if IsA_FuncExpr left then left else right) of
        FuncExpr funcid funcresulttype funccollid finputcollid tb_args \<Rightarrow>
          (let op = OpExpr op_opno op_opfuncid opresulttype opretset opcollid inputcollid
                      (left # right # others);
               time_bucket = FuncExpr funcid funcresulttype funccollid finputcollid tb_args;
               val = (if IsA_Const right then right else left)
           in case linitial tb_args of
                Inl e \<Rightarrow> Inl e
              | Inr width \<Rightarrow>
                  if USE_ASSERT_CHECKING be \<and> length tb_args \<noteq> 2
                  then Inl (AssertFailure ''list_length(time_bucket->args) == 2'')
                  else if IsA_FuncExpr right \<and> \<not> OidIsValid (get_commutator be op_opno)
                  then Inr op
                  else
                    (let opno = (if IsA_FuncExpr right then get_commutator be op_opno else op_opno);
                         opfuncid = (if IsA_FuncExpr right then InvalidOid else op_opfuncid);
                         tce = lookup_type_cache be (exprType time_bucket);
                         strategy = get_op_opfamily_strategy be opno (btree_opf tce)
                     in if strategy = BTGreaterStrategyNumber \<or>
                           strategy = BTGreaterEqualStrategyNumber
                        then (case lsecond tb_args of
                                Inl e \<Rightarrow> Inl e
                              | Inr col \<Rightarrow>
                                  Inr (OpExpr opno opfuncid opresulttype opretset opcollid
                                         inputcollid [col, val]))
                        else if strategy = BTLessStrategyNumber \<or>
                                strategy = BTLessEqualStrategyNumber
                        then transform_less be planner tce op opno opfuncid opresulttype opretset
                               opcollid inputcollid val width (lsecond tb_args)
                        else Inr op))
      | _ \<Rightarrow>
          (if USE_ASSERT_CHECKING be
           then Inl (AssertFailure ''castNode(FuncExpr, ...)'')
           else Inl (Undefined ''a node read as a FuncExpr'')))"
| "transform_time_bucket_comparison be planner op =
     Inl (Undefined ''op->args without two cells, or op not an OpExpr'')"

subsection \<open>The expression classifier\<close>

definition CHUNK_EXCL_FUNC_NAME :: string where
  "CHUNK_EXCL_FUNC_NAME = ''chunks_in''"

definition INTERNAL_SCHEMA_NAME :: string where
  "INTERNAL_SCHEMA_NAME = ''_timescaledb_internal''"

definition RECORDOID :: Oid where
  "RECORDOID = 2249"

definition INT4ARRAYOID :: Oid where
  "INT4ARRAYOID = 1007"

definition ts_chunks_arg_types :: "Oid list" where
  "ts_chunks_arg_types = [RECORDOID, INT4ARRAYOID]"

text \<open>
  Modelled from the spec: \<^verbatim>\<open>get_function_oid\<close>, the lookup of a function by name, schema,
  number of arguments and argument types, is defined in the extension's utilities and not
  in this file. The spec (4.1, 5 and 7) has a failed lookup leave the feature unavailable
  and never abort planning, so the lookup returns the identifier of the first function of
  the catalog that matches, and the invalid identifier when none does.
\<close>

definition get_function_oid :: "Backend \<Rightarrow> string \<Rightarrow> string \<Rightarrow> nat \<Rightarrow> Oid list \<Rightarrow> Oid" where
  "get_function_oid be fname schema_name nargs arg_types =
     (case find (\<lambda>p. proname p = fname \<and> pronamespace_name p = schema_name \<and>
                      length (proargtypes p) = nargs \<and>
                      take nargs (proargtypes p) = take nargs arg_types) (pg_proc be) of
        None \<Rightarrow> InvalidOid
      | Some p \<Rightarrow> pro_oid p)"

text \<open>
  Lines 55-64. The static variable \<^verbatim>\<open>chunk_exclusion_func\<close> of the file is passed in and its
  new content is returned. \<^verbatim>\<open>Assert\<close> is checked in a build with assertion checking only.
\<close>

definition init_chunk_exclusion_func :: "Backend \<Rightarrow> Oid \<Rightarrow> error + Oid" where
  "init_chunk_exclusion_func be chunk_exclusion_func_oid =
     (let func_oid =
            (if chunk_exclusion_func_oid = InvalidOid
             then get_function_oid be CHUNK_EXCL_FUNC_NAME INTERNAL_SCHEMA_NAME
                    (length ts_chunks_arg_types) ts_chunks_arg_types
             else chunk_exclusion_func_oid)
      in if USE_ASSERT_CHECKING be \<and> \<not> func_oid \<noteq> InvalidOid
         then Inl (AssertFailure ''chunk_exclusion_func != InvalidOid'')
         else Inr func_oid)"

fun is_chunk_exclusion_func :: "Oid \<Rightarrow> Expr \<Rightarrow> bool" where
  "is_chunk_exclusion_func chunk_exclusion_func_oid (FuncExpr funcid _ _ _ _) =
     (funcid = chunk_exclusion_func_oid)"
| "is_chunk_exclusion_func chunk_exclusion_func_oid _ = False"

text \<open>\<^verbatim>\<open>strncmp(s1, s2, n) == 0\<close> on strings without an inner NUL.\<close>

definition strncmp_eq :: "string \<Rightarrow> string \<Rightarrow> nat \<Rightarrow> bool" where
  "strncmp_eq s1 s2 n = (take n s1 = take n s2)"

text \<open>\<^verbatim>\<open>get_func_name\<close> returns NULL for a function the catalog does not have.\<close>

fun is_time_bucket_function :: "Backend \<Rightarrow> Expr \<Rightarrow> error + bool" where
  "is_time_bucket_function be (FuncExpr funcid _ _ _ _) =
     (case get_func_name be funcid of
        None \<Rightarrow> Inl (Undefined ''strncmp of a NULL name'')
      | Some fname \<Rightarrow> Inr (strncmp_eq fname ''time_bucket'' NAMEDATALEN))"
| "is_time_bucket_function be _ = Inr False"

subsection \<open>The qualifier collector\<close>

record CollectQualCtx =
  ctx_planner :: PlannerInfo
  ctx_rel :: RelOptInfo
  restrictions :: "RestrictInfo list"
  chunk_exclusion_func :: "Expr option"

text \<open>\<^verbatim>\<open>make_restrictinfo\<close> with the arguments of lines 325-332 (PostgreSQL 10 and later).\<close>

definition make_restrictinfo :: "Expr \<Rightarrow> bool \<Rightarrow> bool \<Rightarrow> bool \<Rightarrow> nat \<Rightarrow> nat set \<Rightarrow> RestrictInfo" where
  "make_restrictinfo qual pushed delayed pseudo level relids =
     \<lparr>clause = qual, is_pushed_down = pushed, outerjoin_delayed = delayed,
      pseudoconstant = pseudo, security_level = level, required_relids = relids\<rparr>"

fun FuncExpr_args :: "Expr \<Rightarrow> Expr list" where
  "FuncExpr_args (FuncExpr _ _ _ _ args) = args"
| "FuncExpr_args _ = []"

text \<open>Lines 311-316: the shape test, its two alternatives evaluated left to right.\<close>

definition is_bucket_comparison :: "Backend \<Rightarrow> Expr \<Rightarrow> Expr \<Rightarrow> error + bool" where
  "is_bucket_comparison be left right =
     (if IsA_FuncExpr left \<and> IsA_Const right \<and> length (FuncExpr_args left) = 2
      then is_time_bucket_function be left
      else if IsA_Const left \<and> IsA_FuncExpr right \<and> length (FuncExpr_args right) = 2
      then is_time_bucket_function be right
      else Inr False)"

text \<open>Lines 305-320: the qualifier that goes into the restriction.\<close>

definition rewrite_qual :: "Backend \<Rightarrow> PlannerInfo \<Rightarrow> Expr \<Rightarrow> error + Expr" where
  "rewrite_qual be planner qual =
     (case qual of
        OpExpr _ _ _ _ _ _ [left, right] \<Rightarrow>
          (case is_bucket_comparison be left right of
             Inl e \<Rightarrow> Inl e
           | Inr True \<Rightarrow> transform_time_bucket_comparison be planner qual
           | Inr False \<Rightarrow> Inr qual)
      | _ \<Rightarrow> Inr qual)"

text \<open>
  Lines 276-336, the loop of \<^verbatim>\<open>process_quals\<close>: \<open>prev\<close> are the cells before the current one.
  The result is the list of qualifiers the function returns and the context it leaves.
\<close>

fun process_quals_from ::
    "Backend \<Rightarrow> Oid \<Rightarrow> Expr list \<Rightarrow> Expr list \<Rightarrow> CollectQualCtx \<Rightarrow> error + (Expr list \<times> CollectQualCtx)" where
  "process_quals_from be chunk_exclusion_func_oid prev [] ctx = Inr (prev, ctx)"
| "process_quals_from be chunk_exclusion_func_oid prev (qual # rest) ctx =
     (let relids = pull_varnos qual
      in if card relids \<noteq> 1 \<or> relid (ctx_rel ctx) \<notin> relids
         then process_quals_from be chunk_exclusion_func_oid (prev @ [qual]) rest ctx
         else if is_chunk_exclusion_func chunk_exclusion_func_oid qual
         then (case linitial (FuncExpr_args qual) of
                 Inl e \<Rightarrow> Inl e
               | Inr first_arg \<Rightarrow>
                   if USE_ASSERT_CHECKING be \<and> length (FuncExpr_args qual) \<noteq> 2
                   then Inl (AssertFailure ''func_expr->args->length == 2'')
                   else if \<not> IsA_Var first_arg
                   then Inl (Ereport ERRCODE_INVALID_PARAMETER_VALUE
                               ''first parameter for chunks_in function needs to be record'' [])
                   else Inr (prev @ rest,
                             ctx\<lparr>chunk_exclusion_func := Some qual, restrictions := []\<rparr>))
         else (case rewrite_qual be (ctx_planner ctx) qual of
                 Inl e \<Rightarrow> Inl e
               | Inr qual' \<Rightarrow>
                   process_quals_from be chunk_exclusion_func_oid (prev @ [qual]) rest
                     (ctx\<lparr>restrictions := restrictions ctx @
                            [make_restrictinfo qual' True False False
                               (qual_security_level (ctx_planner ctx)) relids]\<rparr>)))"

definition process_quals ::
    "Backend \<Rightarrow> Oid \<Rightarrow> Expr list \<Rightarrow> CollectQualCtx \<Rightarrow> error + (Expr list \<times> CollectQualCtx)" where
  "process_quals be chunk_exclusion_func_oid quals ctx =
     process_quals_from be chunk_exclusion_func_oid [] quals ctx"

text \<open>
  Lines 339-361. The walker returns whether the walk was aborted, the node with the
  qualifier lists that \<^verbatim>\<open>process_quals\<close> returned, and the context.
  \<^verbatim>\<open>expression_tree_walker\<close> visits the \<^verbatim>\<open>fromlist\<close> of a \<^verbatim>\<open>FromExpr\<close>, and \<^verbatim>\<open>larg\<close> then \<^verbatim>\<open>rarg\<close>
  of a \<^verbatim>\<open>JoinExpr\<close>, and stops at the first child on which the walker returns true. It
  visits the qualifiers last; they hold no \<^verbatim>\<open>FromExpr\<close> or \<^verbatim>\<open>JoinExpr\<close> (the walker does not
  enter a subquery), so that visit changes nothing and returns false.
\<close>

fun collect_quals_walker ::
    "Backend \<Rightarrow> Oid \<Rightarrow> JoinTree \<Rightarrow> CollectQualCtx \<Rightarrow> error + (bool \<times> JoinTree \<times> CollectQualCtx)"
  and collect_quals_walker_list ::
    "Backend \<Rightarrow> Oid \<Rightarrow> JoinTree list \<Rightarrow> CollectQualCtx \<Rightarrow>
       error + (bool \<times> JoinTree list \<times> CollectQualCtx)" where
  "collect_quals_walker be cef (RangeTblRef rtindex) ctx =
     Inr (chunk_exclusion_func ctx \<noteq> None, RangeTblRef rtindex, ctx)"
| "collect_quals_walker be cef (FromExpr fromlist quals) ctx =
     (case process_quals be cef quals ctx of
        Inl e \<Rightarrow> Inl e
      | Inr (quals1, ctx1) \<Rightarrow>
          if chunk_exclusion_func ctx1 \<noteq> None
          then Inr (True, FromExpr fromlist quals1, ctx1)
          else (case collect_quals_walker_list be cef fromlist ctx1 of
                  Inl e \<Rightarrow> Inl e
                | Inr (found, fromlist1, ctx2) \<Rightarrow> Inr (found, FromExpr fromlist1 quals1, ctx2)))"
| "collect_quals_walker be cef (JoinExpr larg rarg quals) ctx =
     (case process_quals be cef quals ctx of
        Inl e \<Rightarrow> Inl e
      | Inr (quals1, ctx1) \<Rightarrow>
          if chunk_exclusion_func ctx1 \<noteq> None
          then Inr (True, JoinExpr larg rarg quals1, ctx1)
          else (case collect_quals_walker be cef larg ctx1 of
                  Inl e \<Rightarrow> Inl e
                | Inr (found, larg1, ctx2) \<Rightarrow>
                    if found then Inr (True, JoinExpr larg1 rarg quals1, ctx2)
                    else (case collect_quals_walker be cef rarg ctx2 of
                            Inl e \<Rightarrow> Inl e
                          | Inr (found1, rarg1, ctx3) \<Rightarrow>
                              Inr (found1, JoinExpr larg1 rarg1 quals1, ctx3))))"
| "collect_quals_walker_list be cef [] ctx = Inr (False, [], ctx)"
| "collect_quals_walker_list be cef (node # nodes) ctx =
     (case collect_quals_walker be cef node ctx of
        Inl e \<Rightarrow> Inl e
      | Inr (found, node1, ctx1) \<Rightarrow>
          if found then Inr (True, node1 # nodes, ctx1)
          else (case collect_quals_walker_list be cef nodes ctx1 of
                  Inl e \<Rightarrow> Inl e
                | Inr (found1, nodes1, ctx2) \<Rightarrow> Inr (found1, node1 # nodes1, ctx2)))"

subsection \<open>The chunk resolver\<close>

text \<open>Lines 363-380.\<close>

definition find_children_oids ::
    "'h RangeExclusion \<Rightarrow> Backend \<Rightarrow> 'h \<Rightarrow> Hypertable \<Rightarrow> nat \<Rightarrow> Oid list" where
  "find_children_oids re be hri ht lockmode =
     (if \<not> ts_hypertable_restrict_info_has_restrictions re hri
      then find_inheritance_children be (main_table_relid ht) lockmode
      else ts_hypertable_restrict_info_get_chunk_oids re hri ht lockmode)"

text \<open>
  Lines 382-398. The result is \<open>None\<close> where the C function returns false, and \<open>Some reverse\<close>
  where it returns true with \<open>reverse\<close> stored through its last argument.
\<close>

definition should_order_append ::
    "'h RangeExclusion \<Rightarrow> Backend \<Rightarrow> PlannerInfo \<Rightarrow> RelOptInfo \<Rightarrow> Hypertable \<Rightarrow> bool option" where
  "should_order_append re be planner rel ht =
     (if ts_guc_disable_optimizations be \<or> \<not> ts_guc_enable_ordered_append be then None
      else if num_dimensions ht \<noteq> 1 \<or> sortClause (parse planner) = [] \<or>
              limit_tuples planner = - 1
      then None
      else ts_ordered_append_should_optimize re planner rel ht)"

text \<open>Lines 400-414; \<open>None\<close> is the NULL hypertable.\<close>

definition ts_plan_expand_hypertable_valid_hypertable ::
    "Hypertable option \<Rightarrow> Query \<Rightarrow> nat \<Rightarrow> RangeTblEntry \<Rightarrow> bool" where
  "ts_plan_expand_hypertable_valid_hypertable ht query rtindex rte =
     (if ht = None \<or> inh rte = False \<or> rowMarks query \<noteq> [] \<or> 0 \<noteq> resultRelation query
      then False
      else True)"

text \<open>Lines 441-462, the loop over the elements of the array.\<close>

fun explicit_chunk_oids_loop ::
    "Backend \<Rightarrow> Hypertable \<Rightarrow> int32 option list \<Rightarrow> Oid list \<Rightarrow> error + Oid list" where
  "explicit_chunk_oids_loop be ht [] chunk_oids = Inr chunk_oids"
| "explicit_chunk_oids_loop be ht (None # elems) chunk_oids =
     Inl (Ereport ERRCODE_INTERNAL_ERROR (''chunk id can'' @ [CHR 0x27] @ ''t be NULL'') [])"
| "explicit_chunk_oids_loop be ht (Some chunk_id # elems) chunk_oids =
     (case ts_chunk_get_by_id be chunk_id of
        None \<Rightarrow> Inl (Ereport ERRCODE_INTERNAL_ERROR ''chunk id %d not found'' [ArgInt chunk_id])
      | Some chunk \<Rightarrow>
          if hypertable_id chunk \<noteq> ht_id ht
          then Inl (Ereport ERRCODE_INVALID_PARAMETER_VALUE
                      (''chunk id %d does not belong to hypertable '' @
                         [CHR 0x22] @ ''%s'' @ [CHR 0x22])
                      [ArgInt chunk_id, ArgStr (ht_table_name ht)])
          else explicit_chunk_oids_loop be ht elems (chunk_oids @ [table_id chunk]))"

text \<open>Lines 417-465. The context holds a \<^verbatim>\<open>FuncExpr\<close>; the array is the datum of the constant.\<close>

definition get_explicit_chunk_oids ::
    "Backend \<Rightarrow> CollectQualCtx \<Rightarrow> Hypertable \<Rightarrow> error + Oid list" where
  "get_explicit_chunk_oids be ctx ht =
     (case chunk_exclusion_func ctx of
        Some (FuncExpr funcid funcresulttype funccollid inputcollid fargs) \<Rightarrow>
          if fargs = [] then Inl (Undefined ''args->length of an empty list'')
          else if USE_ASSERT_CHECKING be \<and> length fargs \<noteq> 2
          then Inl (AssertFailure ''ctx->chunk_exclusion_func->args->length == 2'')
          else (case lsecond fargs of
                  Inl e \<Rightarrow> Inl e
                | Inr (Const consttype consttypmod constcollid constvalue constisnull) \<Rightarrow>
                    if USE_ASSERT_CHECKING be \<and> constisnull
                    then Inl (AssertFailure ''!chunks_arg->constisnull'')
                    else (case constvalue of
                            ArrayDatum elems \<Rightarrow> explicit_chunk_oids_loop be ht elems []
                          | _ \<Rightarrow> Inl (Undefined ''constvalue read as an array''))
                | Inr _ \<Rightarrow>
                    Inl (Ereport ERRCODE_FEATURE_NOT_SUPPORTED
                           ''second argument to chunk_in should contain only integer consts'' []))
      | _ \<Rightarrow> Inl (Undefined ''ctx->chunk_exclusion_func is not a FuncExpr''))"

text \<open>
  Lines 471-501. The result is the relation, with \<^verbatim>\<open>appends_ordered\<close> set where line 490 sets
  it, and the list of chunk relations.
\<close>

definition get_chunk_oids ::
    "'h RangeExclusion \<Rightarrow> Backend \<Rightarrow> CollectQualCtx \<Rightarrow> PlannerInfo \<Rightarrow> RelOptInfo \<Rightarrow> Hypertable \<Rightarrow>
       error + (RelOptInfo \<times> Oid list)" where
  "get_chunk_oids re be ctx planner rel ht =
     (if chunk_exclusion_func ctx = None
      then (let hri = ts_hypertable_restrict_info_add re
                        (ts_hypertable_restrict_info_create re rel ht) planner (restrictions ctx)
            in case should_order_append re be planner rel ht of
                 Some reverse \<Rightarrow>
                   Inr (case fdw_private rel of
                          None \<Rightarrow> rel
                        | Some priv \<Rightarrow> rel\<lparr>fdw_private := Some (priv\<lparr>appends_ordered := True\<rparr>)\<rparr>,
                        ts_hypertable_restrict_info_get_chunk_oids_ordered re hri ht
                          AccessShareLock reverse)
               | None \<Rightarrow> Inr (rel, find_children_oids re be hri ht AccessShareLock))
      else (case get_explicit_chunk_oids be ctx ht of
              Inl e \<Rightarrow> Inl e
            | Inr chunk_oids \<Rightarrow> Inr (rel, chunk_oids)))"

subsection \<open>The append expansion\<close>

text \<open>
  The file compiles differently for PostgreSQL 9.6, 10 and 11; the model takes the branches
  of PostgreSQL 11. Lines 532-568: \<open>None\<close> from the attribute cache is the invalid tuple.
\<close>

definition RELKIND_PARTITIONED_TABLE :: char where
  "RELKIND_PARTITIONED_TABLE = CHR ''p''"

definition PARTITION_STRATEGY_MULTIDIM :: char where
  "PARTITION_STRATEGY_MULTIDIM = CHR ''m''"

fun get_hypertable_partexprs ::
    "Backend \<Rightarrow> Hypertable \<Rightarrow> nat \<Rightarrow> Dimension list \<Rightarrow> error + Expr list list" where
  "get_hypertable_partexprs be ht varno [] = Inr []"
| "get_hypertable_partexprs be ht varno (d # ds) =
     (case SearchSysCacheAttNum be (main_table_relid ht) (column_attno d) of
        None \<Rightarrow> Inl (Ereport ERRCODE_INTERNAL_ERROR ''cache lookup failed for attribute'' [])
      | Some att \<Rightarrow>
          (let expr = Var varno (column_attno d) (atttypid att) 0;
               partexpr = (case partitioning d of
                             Some fn_expr \<Rightarrow> [expr, fn_expr]
                           | None \<Rightarrow> [expr])
           in case get_hypertable_partexprs be ht varno ds of
                Inl e \<Rightarrow> Inl e
              | Inr exprs \<Rightarrow> Inr (partexpr # exprs)))"

text \<open>Lines 595-608.\<close>

definition build_hypertable_partition_info ::
    "Backend \<Rightarrow> Hypertable \<Rightarrow> RelOptInfo \<Rightarrow> nat \<Rightarrow> error + RelOptInfo" where
  "build_hypertable_partition_info be ht hyper_rel n =
     (let scheme = \<lparr>partnatts = num_dimensions ht, strategy = PARTITION_STRATEGY_MULTIDIM\<rparr>
      in case get_hypertable_partexprs be ht (relid hyper_rel) (dimensions ht) of
           Inl e \<Rightarrow> Inl e
         | Inr exprs \<Rightarrow>
             Inr (hyper_rel\<lparr>nparts := n, part_scheme := Some scheme, partexprs := exprs,
                            nullable_partexprs := replicate (partnatts scheme) []\<rparr>))"

text \<open>
  Lines 666-727, the loop over the chunk relations: \<open>rte\<close> is the entry of the parent,
  \<open>appinfos\<close> the append entries made so far. A write past the end of the planner's arrays
  is undefined.
\<close>

fun expand_children ::
    "Backend \<Rightarrow> Oid \<Rightarrow> Relation \<Rightarrow> RangeTblEntry \<Rightarrow> nat \<Rightarrow> Oid list \<Rightarrow> PlannerInfo \<Rightarrow>
       AppendRelInfo list \<Rightarrow> error + (PlannerInfo \<times> AppendRelInfo list)" where
  "expand_children be parent_oid oldrelation rte rtindex [] planner appinfos =
     Inr (planner, appinfos)"
| "expand_children be parent_oid oldrelation rte rtindex (child_oid # oids) planner appinfos =
     (case (if child_oid \<noteq> parent_oid then heap_open be child_oid else Some oldrelation) of
        None \<Rightarrow>
          Inl (Ereport ERRCODE_INTERNAL_ERROR ''could not open relation with OID %u''
                 [ArgOid child_oid])
      | Some newrelation \<Rightarrow>
          if USE_ASSERT_CHECKING be \<and> is_other_temp newrelation
          then Inl (AssertFailure ''!RELATION_IS_OTHER_TEMP(newrelation)'')
          else
            (let childrte = rte\<lparr>rte_relid := child_oid, rte_relkind := rd_relkind newrelation,
                                inh := False, ctename := None, requiredPerms := 0,
                                securityQuals := []\<rparr>;
                 query = (parse planner)\<lparr>rtable := rtable (parse planner) @ [childrte]\<rparr>;
                 child_rtindex = length (rtable query)
             in if \<not> (child_rtindex < length (simple_rte_array planner) \<and>
                       child_rtindex < length (simple_rel_array planner))
                then Inl (Undefined ''write past the end of simple_rte_array'')
                else if USE_ASSERT_CHECKING be \<and> rte_relkind childrte = RELKIND_PARTITIONED_TABLE
                then Inl (AssertFailure ''childrte->relkind != RELKIND_PARTITIONED_TABLE'')
                else
                  (let appinfo = \<lparr>parent_relid = rtindex, child_relid = child_rtindex,
                                   parent_reltype = rd_reltype oldrelation,
                                   child_reltype = rd_reltype newrelation,
                                   translated_vars =
                                     ts_make_inh_translation_list be oldrelation newrelation
                                       child_rtindex,
                                   parent_reloid = parent_oid\<rparr>
                   in expand_children be parent_oid oldrelation rte rtindex oids
                        (planner\<lparr>parse := query,
                                  simple_rte_array :=
                                    (simple_rte_array planner)[child_rtindex := Some childrte],
                                  simple_rel_array :=
                                    (simple_rel_array planner)[child_rtindex := None]\<rparr>)
                        (appinfos @ [appinfo]))))"

text \<open>
  Lines 614-739, the entry point. The static variable \<^verbatim>\<open>chunk_exclusion_func\<close> is passed in;
  the result is its new content, the planner state and the relation as the function leaves
  them. \<^verbatim>\<open>rt_fetch\<close> outside the range table is undefined; \<^verbatim>\<open>heap_open\<close> raises where there
  is no such relation. The array \<^verbatim>\<open>append_rel_array\<close> that \<^verbatim>\<open>setup_append_rel_array\<close> builds
  is a function of \<open>append_rel_list\<close> and is not kept.
\<close>

definition ts_plan_expand_hypertable_chunks ::
    "'h RangeExclusion \<Rightarrow> Backend \<Rightarrow> Oid \<Rightarrow> Hypertable \<Rightarrow> PlannerInfo \<Rightarrow> Oid \<Rightarrow> bool \<Rightarrow> RelOptInfo \<Rightarrow>
       error + (Oid \<times> PlannerInfo \<times> RelOptInfo)" where
  "ts_plan_expand_hypertable_chunks re be chunk_exclusion_func_oid ht planner parent_oid
       inhparent rel =
     (let rtindex = relid rel
      in if \<not> (1 \<le> rtindex \<and> rtindex \<le> length (rtable (parse planner)))
         then Inl (Undefined ''rt_fetch outside the range table'')
         else case heap_open be parent_oid of
           None \<Rightarrow>
             Inl (Ereport ERRCODE_INTERNAL_ERROR ''could not open relation with OID %u''
                    [ArgOid parent_oid])
         | Some oldrelation \<Rightarrow>
             if USE_ASSERT_CHECKING be \<and> \<not> rtindex \<noteq> resultRelation (parse planner)
             then Inl (AssertFailure ''rti != parse->resultRelation'')
             else if (case get_plan_rowmark (plan_rowMarks planner) rtindex of
                        None \<Rightarrow> False
                      | Some oldrc \<Rightarrow> RowMarkRequiresRowShareLock (markType oldrc))
             then Inl (Ereport ERRCODE_INTERNAL_ERROR ''unexpected permissions requested'' [])
             else
               (let rte = (rtable (parse planner) ! (rtindex - 1))\<lparr>inh := True\<rparr>;
                    planner1 = planner\<lparr>parse := (parse planner)
                                 \<lparr>rtable := (rtable (parse planner))[rtindex - 1 := rte]\<rparr>\<rparr>
                in case init_chunk_exclusion_func be chunk_exclusion_func_oid of
                     Inl e \<Rightarrow> Inl e
                   | Inr func_oid \<Rightarrow>
                       (case collect_quals_walker be func_oid (jointree (parse planner1))
                               \<lparr>ctx_planner = planner1, ctx_rel = rel, restrictions = [],
                                chunk_exclusion_func = None\<rparr> of
                          Inl e \<Rightarrow> Inl e
                        | Inr (found, jointree1, ctx) \<Rightarrow>
                            (let planner2 = planner1\<lparr>parse := (parse planner1)
                                              \<lparr>jointree := jointree1\<rparr>\<rparr>
                             in case get_chunk_oids re be ctx planner2 rel ht of
                                  Inl e \<Rightarrow> Inl e
                                | Inr (rel1, inh_oids) \<Rightarrow>
                                    (let planner3 = planner2
                                           \<lparr>simple_rel_array_size :=
                                              simple_rel_array_size planner2 + length inh_oids,
                                            simple_rel_array :=
                                              simple_rel_array planner2 @
                                                replicate (length inh_oids) None,
                                            simple_rte_array :=
                                              simple_rte_array planner2 @
                                                replicate (length inh_oids) None\<rparr>
                                     in case build_hypertable_partition_info be ht rel1
                                               (length inh_oids) of
                                          Inl e \<Rightarrow> Inl e
                                        | Inr rel2 \<Rightarrow>
                                            (case expand_children be parent_oid oldrelation rte
                                                    rtindex inh_oids planner3 [] of
                                               Inl e \<Rightarrow> Inl e
                                             | Inr (planner4, appinfos) \<Rightarrow>
                                                 Inr (func_oid,
                                                      planner4\<lparr>append_rel_list :=
                                                        append_rel_list planner4 @ appinfos\<rparr>,
                                                      rel2)))))))"

subsection \<open>Conditions the properties name\<close>

text \<open>
  Lines 285 and 288: the qualifier is a call of the marker function and the only relation it
  refers to is the one being expanded.
\<close>

definition is_explicit_selector :: "Oid \<Rightarrow> nat \<Rightarrow> Expr \<Rightarrow> bool" where
  "is_explicit_selector chunk_exclusion_func_oid rtindex qual =
     (card (pull_varnos qual) = 1 \<and> rtindex \<in> pull_varnos qual \<and>
      is_chunk_exclusion_func chunk_exclusion_func_oid qual)"

text \<open>
  Lines 443-456: the element is not NULL, names a chunk, and the chunk is one of the
  hypertable. \<open>chunk_table_id\<close> is the relation of the chunk such an element names.
\<close>

definition valid_chunk_id :: "Backend \<Rightarrow> Hypertable \<Rightarrow> int32 option \<Rightarrow> bool" where
  "valid_chunk_id be ht elem =
     (case elem of
        None \<Rightarrow> False
      | Some chunk_id \<Rightarrow>
          (case ts_chunk_get_by_id be chunk_id of
             None \<Rightarrow> False
           | Some chunk \<Rightarrow> hypertable_id chunk = ht_id ht))"

definition chunk_table_id :: "Backend \<Rightarrow> int32 option \<Rightarrow> Oid" where
  "chunk_table_id be elem =
     (case elem of
        None \<Rightarrow> InvalidOid
      | Some chunk_id \<Rightarrow>
          (case ts_chunk_get_by_id be chunk_id of
             None \<Rightarrow> InvalidOid
           | Some chunk \<Rightarrow> table_id chunk))"

text \<open>
  \<open>delete_qual q tree tree'\<close>: \<open>tree'\<close> is \<open>tree\<close> with one occurrence of the qualifier \<open>q\<close> taken
  out of the qualifier list of one of its \<^verbatim>\<open>FromExpr\<close> or \<^verbatim>\<open>JoinExpr\<close> nodes, and nothing else
  changed.
\<close>

inductive delete_qual :: "Expr \<Rightarrow> JoinTree \<Rightarrow> JoinTree \<Rightarrow> bool" where
  delete_from_quals:
    "delete_qual q (FromExpr fromlist (pre @ q # post)) (FromExpr fromlist (pre @ post))"
| delete_join_quals:
    "delete_qual q (JoinExpr larg rarg (pre @ q # post)) (JoinExpr larg rarg (pre @ post))"
| delete_in_fromlist:
    "delete_qual q node node' \<Longrightarrow>
     delete_qual q (FromExpr (before @ node # after) quals)
       (FromExpr (before @ node' # after) quals)"
| delete_in_larg:
    "delete_qual q larg larg' \<Longrightarrow>
     delete_qual q (JoinExpr larg rarg quals) (JoinExpr larg' rarg quals)"
| delete_in_rarg:
    "delete_qual q rarg rarg' \<Longrightarrow>
     delete_qual q (JoinExpr larg rarg quals) (JoinExpr larg rarg' quals)"

text \<open>The qualifiers of the \<^verbatim>\<open>FromExpr\<close> and \<^verbatim>\<open>JoinExpr\<close> nodes of a join tree.\<close>

fun quals_of :: "JoinTree \<Rightarrow> Expr list" where
  "quals_of (RangeTblRef rtindex) = []"
| "quals_of (FromExpr fromlist quals) = quals @ concat (map quals_of fromlist)"
| "quals_of (JoinExpr larg rarg quals) = quals @ quals_of larg @ quals_of rarg"

text \<open>Line 490: the relation with \<^verbatim>\<open>appends_ordered\<close> set, where it has the private state.\<close>

definition mark_appends_ordered :: "RelOptInfo \<Rightarrow> RelOptInfo" where
  "mark_appends_ordered rel =
     (case fdw_private rel of
        None \<Rightarrow> rel
      | Some priv \<Rightarrow> rel\<lparr>fdw_private := Some (priv\<lparr>appends_ordered := True\<rparr>)\<rparr>)"

subsection \<open>A catalog for the examples\<close>

text \<open>
  The examples run on a backend with a table \<open>metrics\<close> (relation 17000, hypertable 1) whose
  chunks 3 and 4 are the relations 17003 and 17004, a hypertable 2 with chunk 7 (relation
  17007), the integer, date and timestamp-with-time-zone comparison and addition operators
  under PostgreSQL's identifiers, a two-argument \<open>time_bucket\<close> per column type, and
  \<open>chunks_in\<close> as function 16600.
\<close>

definition BOOLOID :: Oid where
  "BOOLOID = 16"

definition INT4OID :: Oid where
  "INT4OID = 23"

definition DATEOID :: Oid where
  "DATEOID = 1082"

definition TIMESTAMPOID :: Oid where
  "TIMESTAMPOID = 1114"

text \<open>The sum of a timestamp and a pure time interval, as the planner would evaluate it.\<close>

fun example_estimate :: "PlannerInfo \<Rightarrow> Expr \<Rightarrow> Expr" where
  "example_estimate planner
       (OpExpr opno opfuncid opresulttype opretset opcollid inputcollid
          [Const ty1 typmod1 coll1 (ValueDatum v) False,
           Const ty2 typmod2 coll2 (IntervalDatum iv) False]) =
     (if opno = 1327 \<and> day iv = 0 \<and> month iv = 0
      then Const opresulttype (- 1) InvalidOid (ValueDatum (v + time iv)) False
      else OpExpr opno opfuncid opresulttype opretset opcollid inputcollid
             [Const ty1 typmod1 coll1 (ValueDatum v) False,
              Const ty2 typmod2 coll2 (IntervalDatum iv) False])"
| "example_estimate planner e = e"

definition example_backend :: Backend where
  "example_backend =
     \<lparr>get_commutator =
        (\<lambda>opno. if opno = 97 then 521 else if opno = 521 then 97
                else if opno = 523 then 525 else if opno = 525 then 523
                else if opno = 96 then 96 else InvalidOid),
      type_btree_opf =
        (\<lambda>ty. if ty = INT4OID then 1976
              else if ty = TIMESTAMPTZOID \<or> ty = DATEOID then 434 else InvalidOid),
      get_op_opfamily_strategy =
        (\<lambda>opno opf.
           if opf = 1976
           then (if opno = 97 then 1 else if opno = 523 then 2 else if opno = 96 then 3
                 else if opno = 525 then 4 else if opno = 521 then 5 else 0)
           else if opf = 434
           then (if opno = 1322 \<or> opno = 1095 \<or> opno = 2384 then 1
                 else if opno = 1324 \<or> opno = 1097 then 5 else 0)
           else 0),
      get_operator =
        (\<lambda>opname namespace l r.
           if opname = ''+'' \<and> namespace = PG_CATALOG_NAMESPACE
           then (if l = INT4OID \<and> r = INT4OID then 551
                 else if l = TIMESTAMPTZOID \<and> r = INTERVALOID then 1327
                 else if l = DATEOID \<and> r = INTERVALOID then 1076 else InvalidOid)
           else InvalidOid),
      get_op_rettype =
        (\<lambda>opno. if opno = 551 then INT4OID else if opno = 1327 then TIMESTAMPTZOID
                else if opno = 1076 then TIMESTAMPOID else InvalidOid),
      get_cast_func =
        (\<lambda>source target. if source = TIMESTAMPOID \<and> target = DATEOID then 2029 else InvalidOid),
      get_func_name =
        (\<lambda>funcid. if funcid = 16500 \<or> funcid = 16501 \<or> funcid = 16502 then Some ''time_bucket''
                  else if funcid = 16600 then Some ''chunks_in'' else None),
      estimate_expression_value = example_estimate,
      ts_chunk_get_by_id =
        (\<lambda>chunk_id. if chunk_id = 3 then Some \<lparr>hypertable_id = 1, table_id = 17003\<rparr>
                    else if chunk_id = 4 then Some \<lparr>hypertable_id = 1, table_id = 17004\<rparr>
                    else if chunk_id = 7 then Some \<lparr>hypertable_id = 2, table_id = 17007\<rparr>
                    else None),
      find_inheritance_children =
        (\<lambda>parent lockmode. if parent = 17000 then [17003, 17004] else []),
      heap_open =
        (\<lambda>oid. if oid = 17000 \<or> oid = 17003 \<or> oid = 17004 \<or> oid = 17007
                then Some \<lparr>rd_relkind = CHR ''r'', rd_reltype = oid + 1000, is_other_temp = False\<rparr>
                else None),
      SearchSysCacheAttNum =
        (\<lambda>oid attno. if oid = 17000 \<and> attno = 1
                      then Some \<lparr>atttypid = INT4OID, atttypmod = - 1, attcollation = InvalidOid\<rparr>
                      else None),
      ts_make_inh_translation_list =
        (\<lambda>oldrelation newrelation child_rtindex. [Var child_rtindex 1 INT4OID 0]),
      pg_proc =
        [\<lparr>proname = ''chunks_in'', pronamespace_name = ''_timescaledb_internal'',
          proargtypes = [2249, 1007], pro_oid = 16600\<rparr>],
      ts_guc_disable_optimizations = False,
      ts_guc_enable_ordered_append = True,
      USE_ASSERT_CHECKING = False\<rparr>"

definition example_query :: Query where
  "example_query =
     \<lparr>rtable = [\<lparr>rte_relid = 17000, rte_relkind = CHR ''r'', inh = True, ctename = None,
                 requiredPerms = 2, securityQuals = []\<rparr>],
      jointree = FromExpr [RangeTblRef 1] [],
      rowMarks = [],
      resultRelation = 0,
      sortClause = []\<rparr>"

definition example_planner :: PlannerInfo where
  "example_planner =
     \<lparr>parse = example_query,
      plan_rowMarks = [],
      limit_tuples = - 1,
      qual_security_level = 0,
      simple_rel_array_size = 2,
      simple_rel_array = [None, None],
      simple_rte_array = [None, None],
      append_rel_list = []\<rparr>"

definition example_rel :: RelOptInfo where
  "example_rel =
     \<lparr>relid = 1, fdw_private = Some \<lparr>appends_ordered = False\<rparr>, nparts = 0,
      part_scheme = None, partexprs = [], nullable_partexprs = []\<rparr>"

definition example_ht :: Hypertable where
  "example_ht =
     \<lparr>ht_id = 1, ht_table_name = ''metrics'', main_table_relid = 17000,
      dimensions = [\<lparr>column_attno = 1, partitioning = None\<rparr>]\<rparr>"

text \<open>
  A range-exclusion capability for the examples: its state is the list of restrictions it
  was given, it has restrictions when that list is not empty, and it knows the chunks of
  \<open>metrics\<close> in ascending and in descending order.
\<close>

definition example_re :: "(RestrictInfo list) RangeExclusion" where
  "example_re =
     \<lparr>ts_hypertable_restrict_info_create = (\<lambda>rel ht. []),
      ts_hypertable_restrict_info_add = (\<lambda>hri planner base_restrict_infos. hri @ base_restrict_infos),
      ts_hypertable_restrict_info_has_restrictions = (\<lambda>hri. hri \<noteq> []),
      ts_hypertable_restrict_info_get_chunk_oids = (\<lambda>hri ht lockmode. [17004]),
      ts_hypertable_restrict_info_get_chunk_oids_ordered =
        (\<lambda>hri ht lockmode reverse. if reverse then [17004, 17003] else [17003, 17004]),
      ts_ordered_append_should_optimize = (\<lambda>planner rel ht. Some True)\<rparr>"

text \<open>The column \<open>t\<close> of \<open>metrics\<close> at a type, constants, and the bucket call on \<open>t\<close>.\<close>

definition column_t :: "Oid \<Rightarrow> Expr" where
  "column_t ty = Var 1 1 ty 0"

definition int4_const :: "int64 \<Rightarrow> Expr" where
  "int4_const v = Const INT4OID (- 1) InvalidOid (ValueDatum v) False"

definition interval_const :: "Interval \<Rightarrow> Expr" where
  "interval_const iv = Const INTERVALOID (- 1) InvalidOid (IntervalDatum iv) False"

definition timestamptz_const :: "int64 \<Rightarrow> Expr" where
  "timestamptz_const v = Const TIMESTAMPTZOID (- 1) InvalidOid (ValueDatum v) False"

definition bucket :: "Oid \<Rightarrow> Oid \<Rightarrow> Expr \<Rightarrow> Expr \<Rightarrow> Expr" where
  "bucket funcid ty width col = FuncExpr funcid ty InvalidOid InvalidOid [width, col]"

definition comparison :: "Oid \<Rightarrow> Oid \<Rightarrow> Expr \<Rightarrow> Expr \<Rightarrow> Expr" where
  "comparison opno opfuncid l r = OpExpr opno opfuncid BOOLOID False InvalidOid InvalidOid [l, r]"

text \<open>The marker call \<open>chunks_in(metrics, ARRAY[...])\<close> and the context an expansion starts with.\<close>

definition record_var :: Expr where
  "record_var = Var 1 0 RECORDOID 0"

definition int4_array :: "int32 option list \<Rightarrow> Expr" where
  "int4_array elems = Const INT4ARRAYOID (- 1) InvalidOid (ArrayDatum elems) False"

definition chunks_in :: "Expr \<Rightarrow> Expr \<Rightarrow> Expr" where
  "chunks_in record_arg chunks_arg =
     FuncExpr 16600 BOOLOID InvalidOid InvalidOid [record_arg, chunks_arg]"

definition example_ctx :: CollectQualCtx where
  "example_ctx =
     \<lparr>ctx_planner = example_planner, ctx_rel = example_rel, restrictions = [],
      chunk_exclusion_func = None\<rparr>"

text \<open>The same query with \<open>ORDER BY t LIMIT 10\<close>.\<close>

definition example_ordered_planner :: PlannerInfo where
  "example_ordered_planner =
     example_planner\<lparr>parse := example_query\<lparr>sortClause := [1]\<rparr>, limit_tuples := 10\<rparr>"

section \<open>Properties\<close>

subsection \<open>The predicate rewriter\<close>

text \<open>
  The input of the rewriter is a comparison with two arguments, one a call \<open>tb\<close> of two
  arguments \<open>width\<close> and \<open>column\<close>, the other a constant \<open>c\<close>; \<open>on_right\<close> says that the call
  is the right argument. On such an input the function is the following case distinction.
\<close>

lemma transform_bucket_comparison:
  assumes tb: "tb = FuncExpr funcid ty fcoll ficoll [width, column]"
    and c: "IsA_Const c"
    and args: "args = (if on_right then [c, tb] else [tb, c])"
  shows "transform_time_bucket_comparison be planner (OpExpr op_opno op_opfuncid rt rs oc ic args) =
     (if on_right \<and> \<not> OidIsValid (get_commutator be op_opno)
      then Inr (OpExpr op_opno op_opfuncid rt rs oc ic args)
      else
        (let opno = (if on_right then get_commutator be op_opno else op_opno);
             opfuncid = (if on_right then InvalidOid else op_opfuncid);
             tce = lookup_type_cache be ty;
             strategy = get_op_opfamily_strategy be opno (btree_opf tce)
         in if strategy = BTGreaterStrategyNumber \<or> strategy = BTGreaterEqualStrategyNumber
            then Inr (OpExpr opno opfuncid rt rs oc ic [column, c])
            else if strategy = BTLessStrategyNumber \<or> strategy = BTLessEqualStrategyNumber
            then transform_less be planner tce (OpExpr op_opno op_opfuncid rt rs oc ic args)
                   opno opfuncid rt rs oc ic c width (Inr column)
            else Inr (OpExpr op_opno op_opfuncid rt rs oc ic args)))"
proof (cases on_right)
  case True
  then show ?thesis using tb c args by (cases c) (simp_all add: Let_def)
next
  case False
  then show ?thesis using tb c args by (cases c) (simp_all add: Let_def)
qed

lemma type_id_lookup_type_cache [simp]: "type_id (lookup_type_cache be ty) = ty"
  by (simp add: lookup_type_cache_def)




text \<open>
  C1. A comparison of two arguments, one the call \<open>bucket(width, column)\<close> and the other a
  constant \<open>c\<close>, whose operator (its commutator when the call is the right argument, provided
  the commutator exists) has the greater or the greater-or-equal strategy in the btree
  operator family of the column's type, is rewritten to the comparison of \<open>column\<close> and \<open>c\<close>
  under that operator: the width is gone, and the operator is the one that was resolved (with
  its function left to be looked up when it was commuted). The rewriter takes the type from
  the bucket call, which returns the type of its column.
\<close>

theorem greater_rewrite:
  assumes tb: "tb = FuncExpr funcid ty fcoll ficoll [width, column]"
    and c: "IsA_Const c"
    and args: "args = (if on_right then [c, tb] else [tb, c])"
    and coltype: "exprType column = exprType tb"
    and opno: "opno = (if on_right then get_commutator be op_opno else op_opno)"
    and comm: "on_right \<longrightarrow> OidIsValid opno"
    and strat: "get_op_opfamily_strategy be opno
                  (btree_opf (lookup_type_cache be (exprType column))) = BTGreaterStrategyNumber \<or>
                get_op_opfamily_strategy be opno
                  (btree_opf (lookup_type_cache be (exprType column))) = BTGreaterEqualStrategyNumber"
  shows "transform_time_bucket_comparison be planner (OpExpr op_opno op_opfuncid rt rs oc ic args) =
           Inr (OpExpr opno (if on_right then InvalidOid else op_opfuncid) rt rs oc ic [column, c])"
proof -
  have ty: "exprType column = ty" using coltype tb by simp
  show ?thesis
    unfolding transform_bucket_comparison [OF tb c args]
    using comm strat by (cases on_right) (simp_all add: opno ty Let_def)
qed

text \<open>\<open>100 < bucket(10, t)\<close> becomes \<open>t > 100\<close>, and \<open>bucket(10, t) > 109\<close> becomes \<open>t > 109\<close>.\<close>

theorem greater_rewrite_witness:
  "transform_time_bucket_comparison example_backend example_planner
     (comparison 97 66 (int4_const 100)
        (bucket 16500 INT4OID (int4_const 10) (column_t INT4OID))) =
     Inr (comparison 521 InvalidOid (column_t INT4OID) (int4_const 100)) \<and>
   transform_time_bucket_comparison example_backend example_planner
     (comparison 521 147 (bucket 16500 INT4OID (int4_const 10) (column_t INT4OID))
        (int4_const 109)) =
     Inr (comparison 521 147 (column_t INT4OID) (int4_const 109))"
proof -
  have commuted:
    "transform_time_bucket_comparison example_backend example_planner
       (OpExpr 97 66 BOOLOID False InvalidOid InvalidOid
          (if True then [int4_const 100, bucket 16500 INT4OID (int4_const 10) (column_t INT4OID)]
           else [bucket 16500 INT4OID (int4_const 10) (column_t INT4OID), int4_const 100])) =
     Inr (OpExpr 521 (if True then InvalidOid else 66) BOOLOID False InvalidOid InvalidOid
            [column_t INT4OID, int4_const 100])"
    by (rule greater_rewrite [where funcid = 16500 and ty = INT4OID and fcoll = InvalidOid and
          ficoll = InvalidOid and width = "int4_const 10" and be = example_backend and
          tb = "bucket 16500 INT4OID (int4_const 10) (column_t INT4OID)" and
          on_right = True and c = "int4_const 100" and column = "column_t INT4OID"])
      (simp_all add: bucket_def int4_const_def column_t_def example_backend_def
         lookup_type_cache_def INT4OID_def OidIsValid_def InvalidOid_def
         BTGreaterStrategyNumber_def)
  have direct:
    "transform_time_bucket_comparison example_backend example_planner
       (OpExpr 521 147 BOOLOID False InvalidOid InvalidOid
          (if False then [int4_const 109, bucket 16500 INT4OID (int4_const 10) (column_t INT4OID)]
           else [bucket 16500 INT4OID (int4_const 10) (column_t INT4OID), int4_const 109])) =
     Inr (OpExpr 521 (if False then InvalidOid else 147) BOOLOID False InvalidOid InvalidOid
            [column_t INT4OID, int4_const 109])"
    by (rule greater_rewrite [where funcid = 16500 and ty = INT4OID and fcoll = InvalidOid and
          ficoll = InvalidOid and width = "int4_const 10" and be = example_backend and
          tb = "bucket 16500 INT4OID (int4_const 10) (column_t INT4OID)" and
          on_right = False and c = "int4_const 109" and column = "column_t INT4OID"])
      (simp_all add: bucket_def int4_const_def column_t_def example_backend_def
         lookup_type_cache_def INT4OID_def OidIsValid_def InvalidOid_def
         BTGreaterStrategyNumber_def)
  show ?thesis using commuted direct by (simp add: comparison_def)
qed

text \<open>
  The steps of the branch of the less and less-or-equal strategies, lines 168-252, on an
  input on which none of them is undefined.
\<close>

lemma less_rewrite_steps:
  assumes tb: "tb = FuncExpr funcid ty fcoll ficoll [width, column]"
    and c: "IsA_Const c"
    and args: "args = (if on_right then [c, tb] else [tb, c])"
    and coltype: "exprType column = exprType tb"
    and opno: "opno = (if on_right then get_commutator be op_opno else op_opno)"
    and comm: "on_right \<longrightarrow> OidIsValid opno"
    and strat: "get_op_opfamily_strategy be opno
                  (btree_opf (lookup_type_cache be (exprType column))) = BTLessStrategyNumber \<or>
                get_op_opfamily_strategy be opno
                  (btree_opf (lookup_type_cache be (exprType column))) = BTLessEqualStrategyNumber"
    and subst_opno: "subst_opno = get_operator be ''+'' PG_CATALOG_NAMESPACE (exprType c) (exprType width)"
    and subst_valid: "OidIsValid subst_opno"
    and cast: "get_op_rettype be subst_opno \<noteq> exprType column \<longrightarrow>
                 OidIsValid (get_cast_func be (get_op_rettype be subst_opno) (exprType column))"
    and width': "adjust_width (lookup_type_cache be (exprType column)) width = Inr width'"
    and addition: "addition = make_opclause subst_opno (exprType column) False c width' InvalidOid InvalidOid"
    and casted: "casted =
                   (if get_op_rettype be subst_opno \<noteq> exprType column
                    then makeFuncExpr (get_cast_func be (get_op_rettype be subst_opno) (exprType column))
                           (exprType column) [addition] InvalidOid InvalidOid
                    else addition)"
    and bound: "fold_constant be planner (lookup_type_cache be (exprType column)) width' casted =
                  Inr bound"
  shows "transform_time_bucket_comparison be planner (OpExpr op_opno op_opfuncid rt rs oc ic args) =
           Inr (OpExpr opno (if on_right then InvalidOid else op_opfuncid) rt rs oc ic
                  [column, bound])"
proof -
  have ty: "exprType column = ty" using coltype tb by simp
  have notgt: "get_op_opfamily_strategy be opno (btree_opf (lookup_type_cache be ty)) \<noteq>
                 BTGreaterStrategyNumber \<and>
               get_op_opfamily_strategy be opno (btree_opf (lookup_type_cache be ty)) \<noteq>
                 BTGreaterEqualStrategyNumber"
    using strat unfolding ty
    by (auto simp: BTLessStrategyNumber_def BTLessEqualStrategyNumber_def
          BTGreaterStrategyNumber_def BTGreaterEqualStrategyNumber_def)
  have less: "transform_less be planner (lookup_type_cache be ty)
                (OpExpr op_opno op_opfuncid rt rs oc ic args) opno
                (if on_right then InvalidOid else op_opfuncid) rt rs oc ic c width (Inr column) =
              Inr (OpExpr opno (if on_right then InvalidOid else op_opfuncid) rt rs oc ic
                     [column, bound])"
    using subst_valid cast width' bound
    unfolding transform_less_def cast_to_type_def subst_opno [symmetric] ty addition casted
    by (cases "get_op_rettype be subst_opno = ty") (simp_all add: Let_def)
  have first: "transform_time_bucket_comparison be planner
                 (OpExpr op_opno op_opfuncid rt rs oc ic args) =
               Inr (OpExpr opno (if on_right then InvalidOid else op_opfuncid) rt rs oc ic
                      [column, bound])"
    unfolding transform_bucket_comparison [OF tb c args]
    using comm strat notgt less by (cases on_right) (simp_all add: opno ty Let_def)
  show ?thesis by (rule first)
qed










text \<open>
  C5. In the branch of the less and less-or-equal strategies, on a column of type timestamp
  with time zone and a width that is an interval constant with no months and some days, the
  width that goes into the sum is a new constant whose interval has the days added to the
  time at \<^verbatim>\<open>USECS_PER_DAY\<close> (24 hours) a day and no days left; the comparison passed in keeps
  its width. The result then has no days and no months, so the bound is the sum as
  \<^verbatim>\<open>estimate_expression_value\<close> evaluates it.

  The test of lines 181-182 does not read the months and days of the interval: it reads the
  \<^verbatim>\<open>Const\<close> node itself as an interval (see \<open>node_as_interval_month\<close>), that is, it tests
  that the collation of the constant is invalid and that its type modifier is not 0. Both
  hold of every interval constant the parser and the planner build (the type has no
  collation; the modifier is -1 or a range and precision, whose range bits are never all 0),
  and they are the hypothesis \<open>node\<close>. The months and days of the interval play no part in
  whether the merge is done.
\<close>

theorem day_merge:
  assumes tb: "tb = FuncExpr funcid ty fcoll ficoll [width, column]"
    and coltype: "exprType column = exprType tb"
    and timestamptz: "exprType column = TIMESTAMPTZOID"
    and width: "width = Const INTERVALOID typmod collid (IntervalDatum iv) isnull"
    and no_month: "month iv = 0"
    and days: "day iv \<noteq> 0"
    and node: "collid = InvalidOid \<and> typmod \<noteq> 0"
    and c: "IsA_Const c"
    and args: "args = (if on_right then [c, tb] else [tb, c])"
    and opno: "opno = (if on_right then get_commutator be op_opno else op_opno)"
    and comm: "on_right \<longrightarrow> OidIsValid opno"
    and strat: "get_op_opfamily_strategy be opno
                  (btree_opf (lookup_type_cache be (exprType column))) = BTLessStrategyNumber \<or>
                get_op_opfamily_strategy be opno
                  (btree_opf (lookup_type_cache be (exprType column))) = BTLessEqualStrategyNumber"
    and subst_opno: "subst_opno =
                       get_operator be ''+'' PG_CATALOG_NAMESPACE (exprType c) (exprType width)"
    and subst_valid: "OidIsValid subst_opno"
    and cast: "get_op_rettype be subst_opno \<noteq> exprType column \<longrightarrow>
                 OidIsValid (get_cast_func be (get_op_rettype be subst_opno) (exprType column))"
    and merged: "merged = Const INTERVALOID typmod collid
                   (IntervalDatum \<lparr>time = time iv + scast (day iv) * USECS_PER_DAY,
                                   day = 0, month = 0\<rparr>) isnull"
    and addition: "addition =
                     make_opclause subst_opno (exprType column) False c merged InvalidOid InvalidOid"
    and casted: "casted =
                   (if get_op_rettype be subst_opno \<noteq> exprType column
                    then makeFuncExpr
                           (get_cast_func be (get_op_rettype be subst_opno) (exprType column))
                           (exprType column) [addition] InvalidOid InvalidOid
                    else addition)"
  shows "adjust_width (lookup_type_cache be (exprType column)) width = Inr merged \<and>
         transform_time_bucket_comparison be planner
             (OpExpr op_opno op_opfuncid rt rs oc ic args) =
           Inr (OpExpr opno (if on_right then InvalidOid else op_opfuncid) rt rs oc ic
                  [column, estimate_expression_value be planner casted])"
proof -
  have iv: "merge_day_into_time iv =
      \<lparr>time = time iv + scast (day iv) * USECS_PER_DAY, day = 0, month = 0\<rparr>"
    using no_month by (cases iv) (simp add: merge_day_into_time_def)
  have adjusted: "adjust_width (lookup_type_cache be (exprType column)) width = Inr merged"
    using node by (simp add: width merged timestamptz iv node_as_interval_month_def
        node_as_interval_day_def InvalidOid_def)
  have folded: "fold_constant be planner (lookup_type_cache be (exprType column)) merged casted =
      Inr (estimate_expression_value be planner casted)"
    by (simp add: merged timestamptz)
  have "transform_time_bucket_comparison be planner
          (OpExpr op_opno op_opfuncid rt rs oc ic args) =
        Inr (OpExpr opno (if on_right then InvalidOid else op_opfuncid) rt rs oc ic
               [column, estimate_expression_value be planner casted])"
    by (rule less_rewrite_steps [OF tb c args coltype opno comm strat subst_opno subst_valid cast
          adjusted addition casted folded])
  then show ?thesis using adjusted by simp
qed


text \<open>
  A width of 1 day 2 hours becomes 26 hours (93600000000 microseconds) before the sum, and
  \<open>bucket('1 day 2 hours', t) < 1000\<close> becomes \<open>t < 93600001000\<close>.
\<close>

theorem day_merge_witness:
  "adjust_width (lookup_type_cache example_backend TIMESTAMPTZOID)
     (interval_const \<lparr>time = 7200000000, day = 1, month = 0\<rparr>) =
     Inr (interval_const \<lparr>time = 93600000000, day = 0, month = 0\<rparr>) \<and>
   transform_time_bucket_comparison example_backend example_planner
     (comparison 1322 1154
        (bucket 16501 TIMESTAMPTZOID (interval_const \<lparr>time = 7200000000, day = 1, month = 0\<rparr>)
           (column_t TIMESTAMPTZOID))
        (timestamptz_const 1000)) =
     Inr (comparison 1322 1154 (column_t TIMESTAMPTZOID) (timestamptz_const 93600001000))"
proof -
  note defs = bucket_def interval_const_def timestamptz_const_def column_t_def
    example_backend_def lookup_type_cache_def TIMESTAMPTZOID_def INTERVALOID_def
    OidIsValid_def InvalidOid_def PG_CATALOG_NAMESPACE_def BTLessStrategyNumber_def
    USECS_PER_DAY_def make_opclause_def makeFuncExpr_def INT4OID_def DATEOID_def
    BTLessEqualStrategyNumber_def
  have "adjust_width (lookup_type_cache example_backend (exprType (column_t TIMESTAMPTZOID)))
          (interval_const \<lparr>time = 7200000000, day = 1, month = 0\<rparr>) =
          Inr (interval_const \<lparr>time = 93600000000, day = 0, month = 0\<rparr>) \<and>
        transform_time_bucket_comparison example_backend example_planner
          (OpExpr 1322 1154 BOOLOID False InvalidOid InvalidOid
             (if False
              then [timestamptz_const 1000,
                    bucket 16501 TIMESTAMPTZOID
                      (interval_const \<lparr>time = 7200000000, day = 1, month = 0\<rparr>)
                      (column_t TIMESTAMPTZOID)]
              else [bucket 16501 TIMESTAMPTZOID
                      (interval_const \<lparr>time = 7200000000, day = 1, month = 0\<rparr>)
                      (column_t TIMESTAMPTZOID),
                    timestamptz_const 1000])) =
          Inr (OpExpr 1322 (if False then InvalidOid else 1154) BOOLOID False InvalidOid InvalidOid
                 [column_t TIMESTAMPTZOID,
                  estimate_expression_value example_backend example_planner
                    (OpExpr 1327 InvalidOid TIMESTAMPTZOID False InvalidOid InvalidOid
                       [timestamptz_const 1000,
                        interval_const \<lparr>time = 93600000000, day = 0, month = 0\<rparr>])])"
    by (rule day_merge [where funcid = 16501 and ty = TIMESTAMPTZOID and fcoll = InvalidOid
          and ficoll = InvalidOid
          and tb = "bucket 16501 TIMESTAMPTZOID
                      (interval_const \<lparr>time = 7200000000, day = 1, month = 0\<rparr>)
                      (column_t TIMESTAMPTZOID)"
          and iv = "\<lparr>time = 7200000000, day = 1, month = 0\<rparr>"
          and typmod = "- 1" and collid = InvalidOid and isnull = False
          and c = "timestamptz_const 1000" and on_right = False and subst_opno = 1327
          and addition = "OpExpr 1327 InvalidOid TIMESTAMPTZOID False InvalidOid InvalidOid
                            [timestamptz_const 1000,
                             interval_const \<lparr>time = 93600000000, day = 0, month = 0\<rparr>]"])
      (simp_all add: defs)
  then show ?thesis
    by (simp add: comparison_def column_t_def timestamptz_const_def interval_const_def
        example_backend_def TIMESTAMPTZOID_def InvalidOid_def)
qed

text \<open>
  What lines 181-199 do to an interval constant without collation does not depend on the
  months and days of the interval: on a column of type timestamp with time zone the days
  are merged whenever the type modifier is not 0, also for an interval with months.
\<close>

lemma adjust_width_reads_node:
  "adjust_width tce (Const INTERVALOID typmod InvalidOid (IntervalDatum iv) isnull) =
     Inr (Const INTERVALOID typmod InvalidOid
            (IntervalDatum (if type_id tce = TIMESTAMPTZOID \<and> typmod \<noteq> 0
                            then merge_day_into_time iv else iv)) isnull)"
  by (simp add: node_as_interval_month_def node_as_interval_day_def InvalidOid_def)

lemma adjust_width_interval_with_month:
  "adjust_width (lookup_type_cache example_backend TIMESTAMPTZOID)
     (interval_const \<lparr>time = 0, day = 1, month = 1\<rparr>) =
     Inr (interval_const \<lparr>time = 86400000000, day = 0, month = 1\<rparr>)"
  by (simp add: interval_const_def node_as_interval_month_def node_as_interval_day_def
      InvalidOid_def merge_day_into_time_def USECS_PER_DAY_def)

subsection \<open>Explicit chunk selection\<close>

text \<open>
  The loop over the array: valid elements are passed over and add the relation of their
  chunk, and an array with an element that is not valid ends in an error.
\<close>

lemma explicit_chunk_oids_loop_valid:
  "list_all (valid_chunk_id be ht) good \<Longrightarrow>
   explicit_chunk_oids_loop be ht (good @ elems) chunk_oids =
   explicit_chunk_oids_loop be ht elems (chunk_oids @ map (chunk_table_id be) good)"
proof (induction good arbitrary: chunk_oids)
  case Nil
  then show ?case by simp
next
  case (Cons elem good)
  then show ?case
    by (auto simp: valid_chunk_id_def chunk_table_id_def split: option.splits)
qed

lemma explicit_chunk_oids_loop_fails:
  "\<not> list_all (valid_chunk_id be ht) elems \<Longrightarrow>
   \<exists>e. explicit_chunk_oids_loop be ht elems chunk_oids = Inl e"
proof (induction elems arbitrary: chunk_oids)
  case Nil
  then show ?case by simp
next
  case (Cons elem elems)
  then show ?case
    by (cases elem) (auto simp: valid_chunk_id_def split: option.splits)
qed

lemma get_explicit_chunk_oids_array:
  assumes "chunk_exclusion_func ctx =
             Some (FuncExpr funcid frt fcoll ficoll
                     [record_arg, Const consttype typmod collid (ArrayDatum elems) isnull])"
    and "\<not> (USE_ASSERT_CHECKING be \<and> isnull)"
  shows "get_explicit_chunk_oids be ctx ht = explicit_chunk_oids_loop be ht elems []"
  using assms by (auto simp: get_explicit_chunk_oids_def)


text \<open>
  The loop of \<^verbatim>\<open>process_quals\<close>: it keeps the relation and the planner of the context,
  and where it returns a prefix of the list unchanged it has reached the qualifier after
  the prefix.
\<close>

lemma process_quals_from_context:
  "process_quals_from be cef prev quals ctx = Inr (quals', ctx') \<Longrightarrow>
   ctx_rel ctx' = ctx_rel ctx \<and> ctx_planner ctx' = ctx_planner ctx"
proof (induction quals arbitrary: prev ctx)
  case Nil
  then show ?case by simp
next
  case (Cons qual rest)
  then show ?case
    by (fastforce simp: Let_def split: if_splits sum.splits)
qed

lemma process_quals_from_append:
  "process_quals_from be cef prev pre ctx = Inr (prev @ pre, ctx1) \<Longrightarrow>
   process_quals_from be cef prev (pre @ quals) ctx =
   process_quals_from be cef (prev @ pre) quals ctx1"
proof (induction pre arbitrary: prev ctx)
  case Nil
  then show ?case by simp
next
  case (Cons qual rest)
  show ?case
  proof (cases "card (pull_varnos qual) \<noteq> 1 \<or> relid (ctx_rel ctx) \<notin> pull_varnos qual")
    case True
    then show ?thesis using Cons.prems Cons.IH [of "prev @ [qual]" ctx] by (simp add: Let_def)
  next
    case target: False
    show ?thesis
    proof (cases "is_chunk_exclusion_func cef qual")
      case True
      then show ?thesis using Cons.prems target
        by (auto simp: Let_def split: if_splits sum.splits)
    next
      case False
      then show ?thesis using Cons.prems target Cons.IH [of "prev @ [qual]"]
        by (auto simp: Let_def split: if_splits sum.splits)
    qed
  qed
qed


text \<open>
  C6. Explicit chunk selection ends in an error of level ERROR in each of these cases.
  When the loop of \<^verbatim>\<open>process_quals\<close> reaches a call \<open>sel\<close> of the marker function that refers
  to the relation being expanded and to no other, and the first argument of \<open>sel\<close> is not a
  \<^verbatim>\<open>Var\<close>, it raises \<open>first parameter for chunks_in function needs to be record\<close>. When the
  selector of the context has a second argument that is not a \<^verbatim>\<open>Const\<close>,
  \<^verbatim>\<open>get_explicit_chunk_oids\<close> raises \<open>second argument to chunk_in should contain only integer
  consts\<close>. When the second argument is a constant array, the first element that is not the
  id of a chunk of the hypertable decides (\<open>good\<close> are the elements before it): a NULL element
  raises \<open>chunk id can't be NULL\<close>, an id with no chunk raises \<open>chunk id %d not found\<close> with
  that id, and the id of a chunk of another hypertable raises \<open>chunk id %d does not belong
  to hypertable "%s"\<close> with that id and the name of the hypertable. An array with any such
  element ends in an error.
\<close>

theorem explicit_selection_errors:
  fixes sel :: Expr and sctx :: CollectQualCtx
  assumes sel: "sel = FuncExpr funcid frt fcoll ficoll [first_arg, second_arg]"
    and sctx: "chunk_exclusion_func sctx = Some sel"
    and array: "array = Const consttype typmod collid (ArrayDatum elems) False"
    and good: "list_all (valid_chunk_id be ht) good"
  shows "(process_quals be cef pre ctx = Inr (pre, ctx') \<and>
          is_explicit_selector cef (relid (ctx_rel ctx)) sel \<and> \<not> IsA_Var first_arg \<longrightarrow>
            process_quals be cef (pre @ sel # post) ctx =
              Inl (Ereport ERRCODE_INVALID_PARAMETER_VALUE
                     ''first parameter for chunks_in function needs to be record'' [])) \<and>
         (\<not> IsA_Const second_arg \<longrightarrow>
            get_explicit_chunk_oids be sctx ht =
              Inl (Ereport ERRCODE_FEATURE_NOT_SUPPORTED
                     ''second argument to chunk_in should contain only integer consts'' [])) \<and>
         (second_arg = array \<and> elems = good @ None # others \<longrightarrow>
            get_explicit_chunk_oids be sctx ht =
              Inl (Ereport ERRCODE_INTERNAL_ERROR
                     (''chunk id can'' @ [CHR 0x27] @ ''t be NULL'') [])) \<and>
         (second_arg = array \<and> elems = good @ Some chunk_id # others \<and>
          ts_chunk_get_by_id be chunk_id = None \<longrightarrow>
            get_explicit_chunk_oids be sctx ht =
              Inl (Ereport ERRCODE_INTERNAL_ERROR ''chunk id %d not found'' [ArgInt chunk_id])) \<and>
         (second_arg = array \<and> elems = good @ Some chunk_id # others \<and>
          ts_chunk_get_by_id be chunk_id = Some chunk \<and> hypertable_id chunk \<noteq> ht_id ht \<longrightarrow>
            get_explicit_chunk_oids be sctx ht =
              Inl (Ereport ERRCODE_INVALID_PARAMETER_VALUE
                     (''chunk id %d does not belong to hypertable '' @
                        [CHR 0x22] @ ''%s'' @ [CHR 0x22])
                     [ArgInt chunk_id, ArgStr (ht_table_name ht)])) \<and>
         (second_arg = array \<and> \<not> list_all (valid_chunk_id be ht) elems \<longrightarrow>
            (\<exists>e. get_explicit_chunk_oids be sctx ht = Inl e))"
proof -
  have record_arg: "process_quals be cef (pre @ sel # post) ctx =
      Inl (Ereport ERRCODE_INVALID_PARAMETER_VALUE
             ''first parameter for chunks_in function needs to be record'' [])"
    if pre: "process_quals be cef pre ctx = Inr (pre, ctx')"
      and target: "is_explicit_selector cef (relid (ctx_rel ctx)) sel"
      and no_var: "\<not> IsA_Var first_arg"
  proof -
    have same: "ctx_rel ctx' = ctx_rel ctx"
      using process_quals_from_context [of be cef "[]" pre ctx pre ctx'] pre
      by (simp add: process_quals_def)
    have "process_quals be cef (pre @ sel # post) ctx =
        process_quals_from be cef pre (sel # post) ctx'"
      using process_quals_from_append [of be cef "[]" pre ctx ctx' "sel # post"] pre
      by (simp add: process_quals_def)
    also have "\<dots> = Inl (Ereport ERRCODE_INVALID_PARAMETER_VALUE
                        ''first parameter for chunks_in function needs to be record'' [])"
      using target no_var by (simp add: is_explicit_selector_def same sel)
    finally show ?thesis .
  qed
  have no_const: "get_explicit_chunk_oids be sctx ht =
      Inl (Ereport ERRCODE_FEATURE_NOT_SUPPORTED
             ''second argument to chunk_in should contain only integer consts'' [])"
    if "\<not> IsA_Const second_arg"
    using that sctx by (cases second_arg) (simp_all add: get_explicit_chunk_oids_def sel)
  have loop: "get_explicit_chunk_oids be sctx ht = explicit_chunk_oids_loop be ht elems []"
    if "second_arg = array"
    using get_explicit_chunk_oids_array [of sctx funcid frt fcoll ficoll first_arg consttype
        typmod collid elems False be ht] that sctx
    by (simp add: sel array)
  have prefix: "explicit_chunk_oids_loop be ht (good @ rest) [] =
      explicit_chunk_oids_loop be ht rest (map (chunk_table_id be) good)" for rest
    using explicit_chunk_oids_loop_valid [OF good, of rest "[]"] by simp
  have null: "get_explicit_chunk_oids be sctx ht =
      Inl (Ereport ERRCODE_INTERNAL_ERROR (''chunk id can'' @ [CHR 0x27] @ ''t be NULL'') [])"
    if "second_arg = array" and "elems = good @ None # others"
    using that loop prefix by simp
  have unknown: "get_explicit_chunk_oids be sctx ht =
      Inl (Ereport ERRCODE_INTERNAL_ERROR ''chunk id %d not found'' [ArgInt chunk_id])"
    if "second_arg = array" and "elems = good @ Some chunk_id # others"
      and "ts_chunk_get_by_id be chunk_id = None"
    using that loop prefix by simp
  have foreign: "get_explicit_chunk_oids be sctx ht =
      Inl (Ereport ERRCODE_INVALID_PARAMETER_VALUE
             (''chunk id %d does not belong to hypertable '' @ [CHR 0x22] @ ''%s'' @ [CHR 0x22])
             [ArgInt chunk_id, ArgStr (ht_table_name ht)])"
    if "second_arg = array" and "elems = good @ Some chunk_id # others"
      and "ts_chunk_get_by_id be chunk_id = Some chunk" and "hypertable_id chunk \<noteq> ht_id ht"
    using that loop prefix by simp
  have some: "\<exists>e. get_explicit_chunk_oids be sctx ht = Inl e"
    if "second_arg = array" and "\<not> list_all (valid_chunk_id be ht) elems"
    using that loop explicit_chunk_oids_loop_fails [of be ht elems "[]"] by simp
  show ?thesis
    by (intro conjI impI; (elim conjE)?;
        (rule record_arg no_const null unknown foreign some; assumption))
qed


text \<open>
  \<open>chunks_in(ROW(t), ARRAY[3])\<close>, a second argument that is no constant, \<open>ARRAY[3, NULL]\<close>,
  \<open>ARRAY[3, 99]\<close> (there is no chunk 99) and \<open>ARRAY[3, 7]\<close> (chunk 7 is of hypertable 2, and
  the error names 7).
\<close>

theorem explicit_selection_errors_witness:
  "process_quals example_backend 16600
     [chunks_in (OtherExpr RECORDOID 0 [column_t INT4OID]) (int4_array [Some 3])] example_ctx =
     Inl (Ereport ERRCODE_INVALID_PARAMETER_VALUE
            ''first parameter for chunks_in function needs to be record'' []) \<and>
   get_explicit_chunk_oids example_backend
     (example_ctx\<lparr>chunk_exclusion_func :=
        Some (chunks_in record_var (OtherExpr INT4ARRAYOID 0 []))\<rparr>) example_ht =
     Inl (Ereport ERRCODE_FEATURE_NOT_SUPPORTED
            ''second argument to chunk_in should contain only integer consts'' []) \<and>
   get_explicit_chunk_oids example_backend
     (example_ctx\<lparr>chunk_exclusion_func :=
        Some (chunks_in record_var (int4_array [Some 3, None]))\<rparr>) example_ht =
     Inl (Ereport ERRCODE_INTERNAL_ERROR (''chunk id can'' @ [CHR 0x27] @ ''t be NULL'') []) \<and>
   get_explicit_chunk_oids example_backend
     (example_ctx\<lparr>chunk_exclusion_func :=
        Some (chunks_in record_var (int4_array [Some 3, Some 99]))\<rparr>) example_ht =
     Inl (Ereport ERRCODE_INTERNAL_ERROR ''chunk id %d not found'' [ArgInt 99]) \<and>
   get_explicit_chunk_oids example_backend
     (example_ctx\<lparr>chunk_exclusion_func :=
        Some (chunks_in record_var (int4_array [Some 3, Some 7]))\<rparr>) example_ht =
     Inl (Ereport ERRCODE_INVALID_PARAMETER_VALUE
            (''chunk id %d does not belong to hypertable '' @ [CHR 0x22] @ ''%s'' @ [CHR 0x22])
            [ArgInt 7, ArgStr ''metrics''])"
proof -
  note defs = chunks_in_def int4_array_def record_var_def column_t_def example_ctx_def
    example_rel_def example_ht_def example_backend_def valid_chunk_id_def
    is_explicit_selector_def process_quals_def
  have first: "process_quals example_backend 16600
      ([] @ chunks_in (OtherExpr RECORDOID 0 [column_t INT4OID]) (int4_array [Some 3]) # [])
      example_ctx =
      Inl (Ereport ERRCODE_INVALID_PARAMETER_VALUE
             ''first parameter for chunks_in function needs to be record'' [])"
    by (rule explicit_selection_errors [where funcid = 16600 and frt = BOOLOID
          and fcoll = InvalidOid and ficoll = InvalidOid
          and first_arg = "OtherExpr RECORDOID 0 [column_t INT4OID]"
          and second_arg = "int4_array [Some 3]"
          and sctx = "example_ctx\<lparr>chunk_exclusion_func :=
                        Some (chunks_in (OtherExpr RECORDOID 0 [column_t INT4OID])
                                (int4_array [Some 3]))\<rparr>"
          and array = "int4_array [Some 3]" and elems = "[Some 3]" and good = "[]"
          and be = example_backend and ht = example_ht and ctx' = example_ctx,
          THEN conjunct1, rule_format])
      (simp_all add: defs)
  have second: "get_explicit_chunk_oids example_backend
      (example_ctx\<lparr>chunk_exclusion_func :=
         Some (chunks_in record_var (OtherExpr INT4ARRAYOID 0 []))\<rparr>) example_ht =
      Inl (Ereport ERRCODE_FEATURE_NOT_SUPPORTED
             ''second argument to chunk_in should contain only integer consts'' [])"
    by (rule explicit_selection_errors [where funcid = 16600 and frt = BOOLOID
          and fcoll = InvalidOid and ficoll = InvalidOid and first_arg = record_var
          and second_arg = "OtherExpr INT4ARRAYOID 0 []"
          and array = "int4_array []" and elems = "[]" and good = "[]"
          and be = example_backend and ht = example_ht,
          THEN conjunct2, THEN conjunct1, rule_format])
      (simp_all add: defs)
  have third: "get_explicit_chunk_oids example_backend
      (example_ctx\<lparr>chunk_exclusion_func :=
         Some (chunks_in record_var (int4_array [Some 3, None]))\<rparr>) example_ht =
      Inl (Ereport ERRCODE_INTERNAL_ERROR (''chunk id can'' @ [CHR 0x27] @ ''t be NULL'') [])"
    by (rule explicit_selection_errors [where funcid = 16600 and frt = BOOLOID
          and fcoll = InvalidOid and ficoll = InvalidOid and first_arg = record_var
          and second_arg = "int4_array [Some 3, None]"
          and array = "int4_array [Some 3, None]" and elems = "[Some 3, None]"
          and good = "[Some 3]" and others = "[]"
          and be = example_backend and ht = example_ht,
          THEN conjunct2, THEN conjunct2, THEN conjunct1, rule_format])
      (simp_all add: defs)
  have fourth: "get_explicit_chunk_oids example_backend
      (example_ctx\<lparr>chunk_exclusion_func :=
         Some (chunks_in record_var (int4_array [Some 3, Some 99]))\<rparr>) example_ht =
      Inl (Ereport ERRCODE_INTERNAL_ERROR ''chunk id %d not found'' [ArgInt 99])"
    by (rule explicit_selection_errors [where funcid = 16600 and frt = BOOLOID
          and fcoll = InvalidOid and ficoll = InvalidOid and first_arg = record_var
          and second_arg = "int4_array [Some 3, Some 99]"
          and array = "int4_array [Some 3, Some 99]" and elems = "[Some 3, Some 99]"
          and good = "[Some 3]" and others = "[]"
          and be = example_backend and ht = example_ht,
          THEN conjunct2, THEN conjunct2, THEN conjunct2, THEN conjunct1, rule_format])
      (simp_all add: defs)
  have fifth: "get_explicit_chunk_oids example_backend
      (example_ctx\<lparr>chunk_exclusion_func :=
         Some (chunks_in record_var (int4_array [Some 3, Some 7]))\<rparr>) example_ht =
      Inl (Ereport ERRCODE_INVALID_PARAMETER_VALUE
             (''chunk id %d does not belong to hypertable '' @ [CHR 0x22] @ ''%s'' @ [CHR 0x22])
             [ArgInt 7, ArgStr (ht_table_name example_ht)])"
    by (rule explicit_selection_errors [where funcid = 16600 and frt = BOOLOID
          and fcoll = InvalidOid and ficoll = InvalidOid and first_arg = record_var
          and second_arg = "int4_array [Some 3, Some 7]"
          and array = "int4_array [Some 3, Some 7]" and elems = "[Some 3, Some 7]"
          and good = "[Some 3]" and others = "[]"
          and chunk = "\<lparr>hypertable_id = 2, table_id = 17007\<rparr>"
          and be = example_backend and ht = example_ht,
          THEN conjunct2, THEN conjunct2, THEN conjunct2, THEN conjunct2, THEN conjunct1,
          rule_format])
      (simp_all add: defs)
  show ?thesis using first second third fourth fifth by (simp add: example_ht_def)
qed

text \<open>
  What the loop of \<^verbatim>\<open>process_quals\<close> returns when it starts without a selector: either it
  found none and returns the qualifiers as they were, or it found one, returns the list
  without it, and leaves it in the context with no restrictions.
\<close>

lemma process_quals_from_selector:
  assumes "process_quals_from be cef prev quals ctx = Inr (quals', ctx')"
    and "chunk_exclusion_func ctx = None"
  shows "(chunk_exclusion_func ctx' = None \<and> quals' = prev @ quals) \<or>
         (\<exists>pre sel post. quals = pre @ sel # post \<and> quals' = prev @ pre @ post \<and>
            chunk_exclusion_func ctx' = Some sel \<and> restrictions ctx' = [] \<and>
            is_explicit_selector cef (relid (ctx_rel ctx)) sel)"
  using assms
proof (induction quals arbitrary: prev ctx)
  case Nil
  then show ?case by simp
next
  case (Cons qual rest)
  show ?case
  proof (cases "card (pull_varnos qual) \<noteq> 1 \<or> relid (ctx_rel ctx) \<notin> pull_varnos qual")
    case True
    then have "process_quals_from be cef (prev @ [qual]) rest ctx = Inr (quals', ctx')"
      using Cons.prems(1) by (simp add: Let_def)
    from Cons.IH [OF this Cons.prems(2)] show ?thesis
    proof
      assume "chunk_exclusion_func ctx' = None \<and> quals' = (prev @ [qual]) @ rest"
      then show ?thesis by simp
    next
      assume "\<exists>pre sel post. rest = pre @ sel # post \<and> quals' = (prev @ [qual]) @ pre @ post \<and>
            chunk_exclusion_func ctx' = Some sel \<and> restrictions ctx' = [] \<and>
            is_explicit_selector cef (relid (ctx_rel ctx)) sel"
      then obtain pre sel post where "rest = pre @ sel # post"
        "quals' = (prev @ [qual]) @ pre @ post" "chunk_exclusion_func ctx' = Some sel"
        "restrictions ctx' = []" "is_explicit_selector cef (relid (ctx_rel ctx)) sel"
        by blast
      then have "qual # rest = (qual # pre) @ sel # post \<and> quals' = prev @ (qual # pre) @ post \<and>
            chunk_exclusion_func ctx' = Some sel \<and> restrictions ctx' = [] \<and>
            is_explicit_selector cef (relid (ctx_rel ctx)) sel"
        by simp
      then show ?thesis by blast
    qed
  next
    case target: False
    show ?thesis
    proof (cases "is_chunk_exclusion_func cef qual")
      case True
      then have "quals' = prev @ rest \<and> chunk_exclusion_func ctx' = Some qual \<and>
          restrictions ctx' = []"
        using Cons.prems(1) target by (auto simp: Let_def split: if_splits sum.splits)
      moreover have "is_explicit_selector cef (relid (ctx_rel ctx)) qual"
        using True target by (simp add: is_explicit_selector_def)
      ultimately have "qual # rest = [] @ qual # rest \<and> quals' = prev @ [] @ rest \<and>
            chunk_exclusion_func ctx' = Some qual \<and> restrictions ctx' = [] \<and>
            is_explicit_selector cef (relid (ctx_rel ctx)) qual"
        by simp
      then show ?thesis by blast
    next
      case False
      then obtain qual' where
        step: "process_quals_from be cef (prev @ [qual]) rest
           (ctx\<lparr>restrictions := restrictions ctx @
              [make_restrictinfo qual' True False False (qual_security_level (ctx_planner ctx))
                 (pull_varnos qual)]\<rparr>) = Inr (quals', ctx')"
        using Cons.prems(1) target by (auto simp: Let_def split: if_splits sum.splits)
      have none: "chunk_exclusion_func
           (ctx\<lparr>restrictions := restrictions ctx @
              [make_restrictinfo qual' True False False (qual_security_level (ctx_planner ctx))
                 (pull_varnos qual)]\<rparr>) = None"
        using Cons.prems(2) by simp
      from Cons.IH [OF step none] show ?thesis
      proof
        assume "chunk_exclusion_func ctx' = None \<and> quals' = (prev @ [qual]) @ rest"
        then show ?thesis by simp
      next
        assume "\<exists>pre sel post. rest = pre @ sel # post \<and> quals' = (prev @ [qual]) @ pre @ post \<and>
            chunk_exclusion_func ctx' = Some sel \<and> restrictions ctx' = [] \<and>
            is_explicit_selector cef (relid (ctx_rel
              (ctx\<lparr>restrictions := restrictions ctx @
                 [make_restrictinfo qual' True False False
                    (qual_security_level (ctx_planner ctx)) (pull_varnos qual)]\<rparr>))) sel"
        then obtain pre sel post where "rest = pre @ sel # post"
          "quals' = (prev @ [qual]) @ pre @ post" "chunk_exclusion_func ctx' = Some sel"
          "restrictions ctx' = []" "is_explicit_selector cef (relid (ctx_rel ctx)) sel"
          by auto
        then have "qual # rest = (qual # pre) @ sel # post \<and> quals' = prev @ (qual # pre) @ post \<and>
            chunk_exclusion_func ctx' = Some sel \<and> restrictions ctx' = [] \<and>
            is_explicit_selector cef (relid (ctx_rel ctx)) sel"
          by simp
        then show ?thesis by blast
      qed
    qed
  qed
qed

lemma process_quals_selector:
  assumes "process_quals be cef quals ctx = Inr (quals', ctx')"
    and "chunk_exclusion_func ctx = None"
  shows "ctx_rel ctx' = ctx_rel ctx \<and>
         ((chunk_exclusion_func ctx' = None \<and> quals' = quals) \<or>
          (\<exists>pre sel post. quals = pre @ sel # post \<and> quals' = pre @ post \<and>
             chunk_exclusion_func ctx' = Some sel \<and> restrictions ctx' = [] \<and>
             is_explicit_selector cef (relid (ctx_rel ctx)) sel))"
  using process_quals_from_selector [of be cef "[]" quals ctx quals' ctx']
    process_quals_from_context [of be cef "[]" quals ctx quals' ctx'] assms
  by (simp add: process_quals_def)

text \<open>The same for the walk over the join tree, by induction on the walk.\<close>

lemma collect_quals_walker_selector:
  "collect_quals_walker be cef tree ctx = Inr (found, tree', ctx') \<Longrightarrow>
   chunk_exclusion_func ctx = None \<Longrightarrow>
   ctx_rel ctx' = ctx_rel ctx \<and>
   ((chunk_exclusion_func ctx' = None \<and> \<not> found \<and> tree' = tree) \<or>
    (\<exists>sel. chunk_exclusion_func ctx' = Some sel \<and> found \<and> restrictions ctx' = [] \<and>
       delete_qual sel tree tree' \<and> is_explicit_selector cef (relid (ctx_rel ctx)) sel))"
  and collect_quals_walker_list_selector:
  "collect_quals_walker_list be cef trees ctx = Inr (found, trees', ctx') \<Longrightarrow>
   chunk_exclusion_func ctx = None \<Longrightarrow>
   ctx_rel ctx' = ctx_rel ctx \<and>
   ((chunk_exclusion_func ctx' = None \<and> \<not> found \<and> trees' = trees) \<or>
    (\<exists>sel before node node' after. chunk_exclusion_func ctx' = Some sel \<and> found \<and>
       restrictions ctx' = [] \<and> trees = before @ node # after \<and>
       trees' = before @ node' # after \<and> delete_qual sel node node' \<and>
       is_explicit_selector cef (relid (ctx_rel ctx)) sel))"
proof (induction be cef tree ctx and be cef trees ctx arbitrary: found tree' ctx' and found trees' ctx'
    rule: collect_quals_walker_collect_quals_walker_list.induct)
  case (1 be cef rtindex ctx)
  then show ?case by auto
next
  case (2 be cef fromlist quals ctx)
  from "2.prems"(1) obtain quals1 ctx1 where
    quals: "process_quals be cef quals ctx = Inr (quals1, ctx1)"
    by (auto split: sum.splits)
  note pq = process_quals_selector [OF quals "2.prems"(2)]
  show ?case
  proof (cases "chunk_exclusion_func ctx1")
    case None
    then have same: "quals1 = quals" using pq by auto
    from "2.prems"(1) quals None obtain fromlist1 where
      walk: "collect_quals_walker_list be cef fromlist ctx1 = Inr (found, fromlist1, ctx')"
      and tree': "tree' = FromExpr fromlist1 quals1"
      by (auto split: sum.splits)
    have none: "\<not> chunk_exclusion_func ctx1 \<noteq> None" using None by simp
    note ih = "2.IH" [OF quals refl none walk None]
    show ?thesis
    proof (cases "chunk_exclusion_func ctx'")
      case None
      then show ?thesis using ih pq tree' same by auto
    next
      case (Some sel)
      then obtain before node node' after where
        found: "found" "restrictions ctx' = []" "fromlist = before @ node # after"
        "fromlist1 = before @ node' # after" "delete_qual sel node node'"
        "is_explicit_selector cef (relid (ctx_rel ctx1)) sel"
        using ih by auto
      have "delete_qual sel (FromExpr fromlist quals) tree'"
        unfolding tree' same found(3,4) by (rule delete_in_fromlist [OF found(5)])
      then show ?thesis using Some found ih pq by auto
    qed
  next
    case (Some sel)
    then obtain pre post where decomposed: "quals = pre @ sel # post" "quals1 = pre @ post"
      "restrictions ctx1 = []" "is_explicit_selector cef (relid (ctx_rel ctx)) sel"
      using pq by auto
    from "2.prems"(1) quals Some have result: "found" "tree' = FromExpr fromlist quals1" "ctx' = ctx1"
      by auto
    have "delete_qual sel (FromExpr fromlist quals) tree'"
      unfolding result decomposed by (rule delete_from_quals)
    then show ?thesis using Some decomposed result pq by auto
  qed
next
  case (3 be cef larg rarg quals ctx)
  from "3.prems"(1) obtain quals1 ctx1 where
    quals: "process_quals be cef quals ctx = Inr (quals1, ctx1)"
    by (auto split: sum.splits)
  note pq = process_quals_selector [OF quals "3.prems"(2)]
  show ?case
  proof (cases "chunk_exclusion_func ctx1")
    case None
    then have same: "quals1 = quals" using pq by auto
    have none: "\<not> chunk_exclusion_func ctx1 \<noteq> None" using None by simp
    from "3.prems"(1) quals None obtain found1 larg1 ctx2 where
      left: "collect_quals_walker be cef larg ctx1 = Inr (found1, larg1, ctx2)"
      by (auto split: sum.splits)
    note ih_left = "3.IH"(1) [OF quals refl none left None]
    show ?thesis
    proof (cases found1)
      case True
      then have result: "found" "tree' = JoinExpr larg1 rarg quals1" "ctx' = ctx2"
        using "3.prems"(1) quals None left by auto
      from True ih_left obtain sel where
        sel: "chunk_exclusion_func ctx2 = Some sel" "restrictions ctx2 = []"
        "delete_qual sel larg larg1" "is_explicit_selector cef (relid (ctx_rel ctx1)) sel"
        by auto
      have "delete_qual sel (JoinExpr larg rarg quals) tree'"
        unfolding result same by (rule delete_in_larg [OF sel(3)])
      then show ?thesis using sel result ih_left pq by auto
    next
      case False
      then have unchanged: "chunk_exclusion_func ctx2 = None" "larg1 = larg"
        "ctx_rel ctx2 = ctx_rel ctx1"
        using ih_left by auto
      from "3.prems"(1) quals None left False obtain rarg1 where
        right: "collect_quals_walker be cef rarg ctx2 = Inr (found, rarg1, ctx')"
        and tree': "tree' = JoinExpr larg1 rarg1 quals1"
        by (auto split: sum.splits)
      note ih_right = "3.IH"(2) [OF quals refl none left refl refl False right unchanged(1)]
      show ?thesis
      proof (cases "chunk_exclusion_func ctx'")
        case None
        then show ?thesis using ih_right unchanged pq tree' same by auto
      next
        case (Some sel)
        then have found: "found" "restrictions ctx' = []" "delete_qual sel rarg rarg1"
          "is_explicit_selector cef (relid (ctx_rel ctx2)) sel"
          using ih_right by auto
        have "delete_qual sel (JoinExpr larg rarg quals) tree'"
          unfolding tree' same unchanged(2) by (rule delete_in_rarg [OF found(3)])
        then show ?thesis using Some found ih_right unchanged pq by auto
      qed
    qed
  next
    case (Some sel)
    then obtain pre post where decomposed: "quals = pre @ sel # post" "quals1 = pre @ post"
      "restrictions ctx1 = []" "is_explicit_selector cef (relid (ctx_rel ctx)) sel"
      using pq by auto
    from "3.prems"(1) quals Some have result: "found" "tree' = JoinExpr larg rarg quals1"
      "ctx' = ctx1"
      by auto
    have "delete_qual sel (JoinExpr larg rarg quals) tree'"
      unfolding result decomposed by (rule delete_join_quals)
    then show ?thesis using Some decomposed result pq by auto
  qed
next
  case (4 be cef ctx)
  then show ?case by auto
next
  case (5 be cef node nodes ctx)
  from "5.prems"(1) obtain found1 node1 ctx1 where
    head: "collect_quals_walker be cef node ctx = Inr (found1, node1, ctx1)"
    by (auto split: sum.splits)
  note ih_head = "5.IH"(1) [OF head "5.prems"(2)]
  show ?case
  proof (cases found1)
    case True
    then have result: "found" "trees' = node1 # nodes" "ctx' = ctx1"
      using "5.prems"(1) head by auto
    from True ih_head obtain sel where
      sel: "chunk_exclusion_func ctx1 = Some sel" "restrictions ctx1 = []"
      "delete_qual sel node node1" "is_explicit_selector cef (relid (ctx_rel ctx)) sel"
      by auto
    have "node # nodes = [] @ node # nodes \<and> trees' = [] @ node1 # nodes"
      using result by simp
    then show ?thesis using sel result ih_head by blast
  next
    case False
    then have unchanged: "chunk_exclusion_func ctx1 = None" "node1 = node"
      "ctx_rel ctx1 = ctx_rel ctx"
      using ih_head by auto
    from "5.prems"(1) head False obtain nodes1 where
      tail: "collect_quals_walker_list be cef nodes ctx1 = Inr (found, nodes1, ctx')"
      and trees': "trees' = node1 # nodes1"
      by (auto split: sum.splits)
    note ih_tail = "5.IH"(2) [OF head refl refl False tail unchanged(1)]
    show ?thesis
    proof (cases "chunk_exclusion_func ctx'")
      case None
      then show ?thesis using ih_tail unchanged trees' by auto
    next
      case (Some sel)
      then obtain before n n' after where
        found: "found" "restrictions ctx' = []" "nodes = before @ n # after"
        "nodes1 = before @ n' # after" "delete_qual sel n n'"
        "is_explicit_selector cef (relid (ctx_rel ctx1)) sel"
        using ih_tail by auto
      have "chunk_exclusion_func ctx' = Some sel \<and> found \<and> restrictions ctx' = [] \<and>
          node # nodes = (node # before) @ n # after \<and>
          trees' = (node # before) @ n' # after \<and> delete_qual sel n n' \<and>
          is_explicit_selector cef (relid (ctx_rel ctx)) sel"
        using Some found trees' unchanged by simp
      then have "\<exists>sel before node0 node' after. chunk_exclusion_func ctx' = Some sel \<and> found \<and>
          restrictions ctx' = [] \<and> node # nodes = before @ node0 # after \<and>
          trees' = before @ node' # after \<and> delete_qual sel node0 node' \<and>
          is_explicit_selector cef (relid (ctx_rel ctx)) sel"
        by (intro exI)
      moreover have "ctx_rel ctx' = ctx_rel ctx" using ih_tail unchanged by simp
      ultimately show ?thesis by simp
    qed
  qed
qed

text \<open>
  A selector is found: when the loop reaches a call of the marker function that refers to
  the relation being expanded and to no other, with a \<^verbatim>\<open>Var\<close> as its first of two
  arguments, it takes the call out of the list, puts it into the context and empties the
  restrictions.
\<close>

lemma process_quals_finds_selector:
  assumes pre: "process_quals be cef pre ctx = Inr (pre, ctx')"
    and target: "is_explicit_selector cef (relid (ctx_rel ctx)) sel"
    and sel: "sel = FuncExpr funcid frt fcoll ficoll [Var varno varattno vartype varlevelsup,
                 second_arg]"
  shows "process_quals be cef (pre @ sel # post) ctx =
           Inr (pre @ post, ctx'\<lparr>chunk_exclusion_func := Some sel, restrictions := []\<rparr>)"
proof -
  have same: "ctx_rel ctx' = ctx_rel ctx"
    using process_quals_from_context [of be cef "[]" pre ctx pre ctx'] pre
    by (simp add: process_quals_def)
  have "process_quals be cef (pre @ sel # post) ctx =
      process_quals_from be cef pre (sel # post) ctx'"
    using process_quals_from_append [of be cef "[]" pre ctx ctx' "sel # post"] pre
    by (simp add: process_quals_def)
  also have "\<dots> = Inr (pre @ post, ctx'\<lparr>chunk_exclusion_func := Some sel, restrictions := []\<rparr>)"
    using target by (simp add: is_explicit_selector_def same sel)
  finally show ?thesis .
qed

text \<open>
  C3, amended. When the walk that started without a selector ends with a selector \<open>sel\<close> in the
  context, then the walk was aborted (the walker returned true), the context holds no
  restrictions (those collected before \<open>sel\<close> are gone and none came after), the tree is the
  tree walked with that one qualifier taken out of its list, and \<open>sel\<close> is a call of the
  marker function that refers to the relation being expanded and to no other. If the second
  argument of \<open>sel\<close> is a constant array whose elements all name chunks of the hypertable,
  the chunk list is the list of the relations of those chunks, one for each element of the
  array in the order of the array, whatever the range-exclusion capability \<open>re\<close>, the planner
  state and the other qualifiers are. An id that occurs twice in the array occurs twice in
  the list: the code has no deduplication.
\<close>

theorem explicit_selection_precedence:
  assumes walk: "collect_quals_walker be cef tree ctx = Inr (found, tree', ctx')"
    and start: "chunk_exclusion_func ctx = None"
    and selector: "chunk_exclusion_func ctx' = Some sel"
  shows "found \<and> restrictions ctx' = [] \<and> delete_qual sel tree tree' \<and>
         is_explicit_selector cef (relid (ctx_rel ctx)) sel \<and>
         (sel = FuncExpr funcid frt fcoll ficoll
                  [record_arg, Const consttype typmod collid (ArrayDatum elems) False] \<and>
          list_all (valid_chunk_id be ht) elems \<longrightarrow>
            get_chunk_oids re be ctx' planner rel ht = Inr (rel, map (chunk_table_id be) elems))"
proof -
  have collected: "found \<and> restrictions ctx' = [] \<and> delete_qual sel tree tree' \<and>
      is_explicit_selector cef (relid (ctx_rel ctx)) sel"
    using collect_quals_walker_selector [OF walk start] selector by auto
  have resolved: "get_chunk_oids re be ctx' planner rel ht =
      Inr (rel, map (chunk_table_id be) elems)"
    if shape: "sel = FuncExpr funcid frt fcoll ficoll
                 [record_arg, Const consttype typmod collid (ArrayDatum elems) False]"
      and valid: "list_all (valid_chunk_id be ht) elems"
  proof -
    have "get_explicit_chunk_oids be ctx' ht = explicit_chunk_oids_loop be ht elems []"
      using get_explicit_chunk_oids_array [of ctx' funcid frt fcoll ficoll record_arg consttype
          typmod collid elems False be ht] selector shape
      by simp
    also have "\<dots> = Inr (map (chunk_table_id be) elems)"
      using explicit_chunk_oids_loop_valid [OF valid, of "[]" "[]"] by simp
    finally show ?thesis using selector by (simp add: get_chunk_oids_def)
  qed
  show ?thesis using collected resolved by blast
qed

text \<open>\<open>WHERE t > 109 AND chunks_in(metrics, ARRAY[4, 3]) AND t < 500\<close>.\<close>

lemma example_walk:
  "collect_quals_walker example_backend 16600
     (FromExpr [RangeTblRef 1]
        [comparison 521 147 (column_t INT4OID) (int4_const 109),
         chunks_in record_var (int4_array [Some 4, Some 3]),
         comparison 97 66 (column_t INT4OID) (int4_const 500)])
     example_ctx =
   Inr (True,
        FromExpr [RangeTblRef 1]
          [comparison 521 147 (column_t INT4OID) (int4_const 109),
           comparison 97 66 (column_t INT4OID) (int4_const 500)],
        example_ctx\<lparr>chunk_exclusion_func :=
          Some (chunks_in record_var (int4_array [Some 4, Some 3]))\<rparr>)"
  by (simp add: process_quals_def comparison_def column_t_def int4_const_def chunks_in_def
      record_var_def int4_array_def example_ctx_def example_rel_def rewrite_qual_def
      is_bucket_comparison_def Let_def)


text \<open>
  The restriction from \<open>t > 109\<close> is dropped, \<open>t < 500\<close> is never looked at, the marker call is
  gone from the tree, and the chunk list is that of chunks 4 and 3 in this order.
\<close>

theorem explicit_selection_precedence_witness:
  "collect_quals_walker example_backend 16600
     (FromExpr [RangeTblRef 1]
        [comparison 521 147 (column_t INT4OID) (int4_const 109),
         chunks_in record_var (int4_array [Some 4, Some 3]),
         comparison 97 66 (column_t INT4OID) (int4_const 500)])
     example_ctx =
   Inr (True,
        FromExpr [RangeTblRef 1]
          [comparison 521 147 (column_t INT4OID) (int4_const 109),
           comparison 97 66 (column_t INT4OID) (int4_const 500)],
        example_ctx\<lparr>chunk_exclusion_func :=
          Some (chunks_in record_var (int4_array [Some 4, Some 3]))\<rparr>) \<and>
   restrictions (example_ctx\<lparr>chunk_exclusion_func :=
          Some (chunks_in record_var (int4_array [Some 4, Some 3]))\<rparr>) = [] \<and>
   delete_qual (chunks_in record_var (int4_array [Some 4, Some 3]))
     (FromExpr [RangeTblRef 1]
        [comparison 521 147 (column_t INT4OID) (int4_const 109),
         chunks_in record_var (int4_array [Some 4, Some 3]),
         comparison 97 66 (column_t INT4OID) (int4_const 500)])
     (FromExpr [RangeTblRef 1]
        [comparison 521 147 (column_t INT4OID) (int4_const 109),
         comparison 97 66 (column_t INT4OID) (int4_const 500)]) \<and>
   get_chunk_oids example_re example_backend
     (example_ctx\<lparr>chunk_exclusion_func :=
        Some (chunks_in record_var (int4_array [Some 4, Some 3]))\<rparr>)
     example_planner example_rel example_ht = Inr (example_rel, [17004, 17003])"
proof -
  have start: "chunk_exclusion_func example_ctx = None"
    by (simp add: example_ctx_def)
  have selector: "chunk_exclusion_func
      (example_ctx\<lparr>chunk_exclusion_func :=
         Some (chunks_in record_var (int4_array [Some 4, Some 3]))\<rparr>) =
      Some (chunks_in record_var (int4_array [Some 4, Some 3]))"
    by simp
  have shape: "chunks_in record_var (int4_array [Some 4, Some 3]) =
      FuncExpr 16600 BOOLOID InvalidOid InvalidOid
        [record_var, Const INT4ARRAYOID (- 1) InvalidOid (ArrayDatum [Some 4, Some 3]) False]"
    by (simp add: chunks_in_def int4_array_def)
  have valid: "list_all (valid_chunk_id example_backend example_ht) [Some 4, Some 3]"
    by (simp add: valid_chunk_id_def example_backend_def example_ht_def)
  have relations: "map (chunk_table_id example_backend) [Some 4, Some 3] = [17004, 17003]"
    by (simp add: chunk_table_id_def example_backend_def)
  show ?thesis
    using explicit_selection_precedence [OF example_walk start selector,
        of 16600 BOOLOID InvalidOid InvalidOid record_var INT4ARRAYOID "- 1" InvalidOid
          "[Some 4, Some 3]" example_ht example_re example_planner example_rel]
      example_walk shape valid relations
    by simp
qed

text \<open>
  C3 as stated fails: \<open>chunks_in(metrics, ARRAY[3, 3])\<close> resolves to the relation of chunk 3
  twice, not to the deduplicated list.
\<close>

theorem explicit_selection_keeps_duplicates:
  "collect_quals_walker example_backend 16600
     (FromExpr [RangeTblRef 1] [chunks_in record_var (int4_array [Some 3, Some 3])])
     example_ctx =
   Inr (True, FromExpr [RangeTblRef 1] [],
        example_ctx\<lparr>chunk_exclusion_func :=
          Some (chunks_in record_var (int4_array [Some 3, Some 3]))\<rparr>) \<and>
   get_chunk_oids example_re example_backend
     (example_ctx\<lparr>chunk_exclusion_func :=
        Some (chunks_in record_var (int4_array [Some 3, Some 3]))\<rparr>)
     example_planner example_rel example_ht = Inr (example_rel, [17003, 17003]) \<and>
   remdups [17003, 17003] = [17003 :: Oid]"
  by (simp add: process_quals_def chunks_in_def record_var_def int4_array_def example_ctx_def
      example_rel_def example_ht_def example_backend_def get_chunk_oids_def
      get_explicit_chunk_oids_def Let_def)

subsection \<open>The chunk resolver\<close>

text \<open>
  C7, amended. With no selector and no restrictions collected, and \<^verbatim>\<open>should_order_append\<close>
  returning false, the chunk list is what \<^verbatim>\<open>find_inheritance_children\<close> returns for the main
  table of the hypertable under \<^verbatim>\<open>AccessShareLock\<close>, whatever the chunk functions of the
  range-exclusion capability return. The capability is only asked whether it has
  restrictions; the hypothesis \<open>nothing\<close> is that, given no restrictions, it says no.
\<close>

theorem no_restriction_fast_path:
  assumes no_selector: "chunk_exclusion_func ctx = None"
    and no_restrictions: "restrictions ctx = []"
    and unordered: "should_order_append re be planner rel ht = None"
    and nothing: "\<not> ts_hypertable_restrict_info_has_restrictions re
                     (ts_hypertable_restrict_info_add re
                        (ts_hypertable_restrict_info_create re rel ht) planner [])"
  shows "get_chunk_oids re be ctx planner rel ht =
           Inr (rel, find_inheritance_children be (main_table_relid ht) AccessShareLock)"
  using assms by (simp add: get_chunk_oids_def find_children_oids_def)

text \<open>\<open>SELECT * FROM metrics\<close>: the two chunks, as the inheritance registry lists them.\<close>

theorem no_restriction_fast_path_witness:
  "get_chunk_oids example_re example_backend example_ctx example_planner example_rel example_ht =
     Inr (example_rel, [17003, 17004])"
proof -
  have registry: "find_inheritance_children example_backend (main_table_relid example_ht)
      AccessShareLock = [17003, 17004]"
    by (simp add: example_backend_def example_ht_def)
  show ?thesis
    unfolding registry [symmetric]
    by (rule no_restriction_fast_path)
      (simp_all add: example_ctx_def example_re_def should_order_append_def
        example_planner_def example_query_def example_backend_def)
qed

text \<open>
  C7 as stated fails: \<open>SELECT * FROM metrics ORDER BY t DESC LIMIT 10\<close> has no restriction and
  no selector, and line 487 sends it to the ordered call of the range-exclusion capability
  before line 497 can reach the fast path. The list is the capability's, in descending order,
  not the registry's.
\<close>

theorem ordered_append_skips_fast_path:
  "chunk_exclusion_func example_ctx = None \<and> restrictions example_ctx = [] \<and>
   get_chunk_oids example_re example_backend example_ctx example_ordered_planner example_rel
     example_ht =
     Inr (example_rel\<lparr>fdw_private := Some \<lparr>appends_ordered = True\<rparr>\<rparr>, [17004, 17003]) \<and>
   find_inheritance_children example_backend (main_table_relid example_ht) AccessShareLock =
     [17003, 17004]"
  by (simp add: get_chunk_oids_def should_order_append_def example_ctx_def example_re_def
      example_ordered_planner_def example_planner_def example_query_def example_backend_def
      example_rel_def example_ht_def num_dimensions_def)

text \<open>
  C9, amended. When no selector was collected: if the kill-switch is off, ordered append is
  enabled, the hypertable has one dimension, the query has a sort clause and a limit
  (\<open>limit_tuples\<close> is not -1) and \<^verbatim>\<open>ts_ordered_append_should_optimize\<close> accepts with direction
  \<open>reverse\<close>, the chunk list is what the ordered call of the range-exclusion capability
  returns for \<open>reverse\<close>, and the relation has \<^verbatim>\<open>appends_ordered\<close> set if it carries the private
  state (\<open>mark_appends_ordered\<close>); if one of the six does not hold, the chunk list is that of
  \<^verbatim>\<open>find_children_oids\<close> and the relation is as it was.
\<close>

theorem ordered_append_eligibility:
  assumes no_selector: "chunk_exclusion_func ctx = None"
    and hri: "hri = ts_hypertable_restrict_info_add re
                (ts_hypertable_restrict_info_create re rel ht) planner (restrictions ctx)"
  shows "(\<not> ts_guc_disable_optimizations be \<and> ts_guc_enable_ordered_append be \<and>
          num_dimensions ht = 1 \<and> sortClause (parse planner) \<noteq> [] \<and>
          limit_tuples planner \<noteq> - 1 \<and>
          ts_ordered_append_should_optimize re planner rel ht = Some reverse \<longrightarrow>
            get_chunk_oids re be ctx planner rel ht =
              Inr (mark_appends_ordered rel,
                   ts_hypertable_restrict_info_get_chunk_oids_ordered re hri ht AccessShareLock
                     reverse)) \<and>
         (\<not> (\<not> ts_guc_disable_optimizations be \<and> ts_guc_enable_ordered_append be \<and>
             num_dimensions ht = 1 \<and> sortClause (parse planner) \<noteq> [] \<and>
             limit_tuples planner \<noteq> - 1 \<and>
             ts_ordered_append_should_optimize re planner rel ht \<noteq> None) \<longrightarrow>
            get_chunk_oids re be ctx planner rel ht =
              Inr (rel, find_children_oids re be hri ht AccessShareLock))"
  using no_selector
  by (auto simp: get_chunk_oids_def should_order_append_def hri mark_appends_ordered_def
      split: option.splits)

text \<open>With \<open>ORDER BY t DESC LIMIT 10\<close> and without.\<close>

theorem ordered_append_eligibility_witness:
  "get_chunk_oids example_re example_backend example_ctx example_ordered_planner example_rel
     example_ht =
     Inr (example_rel\<lparr>fdw_private := Some \<lparr>appends_ordered = True\<rparr>\<rparr>, [17004, 17003]) \<and>
   get_chunk_oids example_re example_backend example_ctx example_planner example_rel example_ht =
     Inr (example_rel, [17003, 17004])"
proof -
  note defs = example_ctx_def example_re_def example_ordered_planner_def example_planner_def
    example_query_def example_backend_def example_rel_def example_ht_def num_dimensions_def
    mark_appends_ordered_def find_children_oids_def
  have ordered: "get_chunk_oids example_re example_backend example_ctx example_ordered_planner
      example_rel example_ht =
      Inr (mark_appends_ordered example_rel,
           ts_hypertable_restrict_info_get_chunk_oids_ordered example_re [] example_ht
             AccessShareLock True)"
    by (rule ordered_append_eligibility [where hri = "[]" and reverse = True,
          THEN conjunct1, rule_format])
      (simp_all add: defs)
  have unordered: "get_chunk_oids example_re example_backend example_ctx example_planner
      example_rel example_ht =
      Inr (example_rel, find_children_oids example_re example_backend [] example_ht
             AccessShareLock)"
    by (rule ordered_append_eligibility [where hri = "[]", THEN conjunct2, rule_format])
      (simp_all add: defs)
  show ?thesis using ordered unordered by (simp add: defs)
qed

text \<open>
  C9 as stated fails: with all six conditions true, a query with \<open>chunks_in(metrics, ARRAY[3])\<close>
  gets the explicit list and no flag (line 476 tests for the selector first), and a relation
  without the private state gets the ordered list and no flag (line 489).
\<close>

theorem ordered_append_not_with_selector:
  "\<not> ts_guc_disable_optimizations example_backend \<and>
   ts_guc_enable_ordered_append example_backend \<and>
   num_dimensions example_ht = 1 \<and>
   sortClause (parse example_ordered_planner) \<noteq> [] \<and>
   limit_tuples example_ordered_planner \<noteq> - 1 \<and>
   ts_ordered_append_should_optimize example_re example_ordered_planner example_rel example_ht =
     Some True \<and>
   get_chunk_oids example_re example_backend
     (example_ctx\<lparr>chunk_exclusion_func := Some (chunks_in record_var (int4_array [Some 3]))\<rparr>)
     example_ordered_planner example_rel example_ht = Inr (example_rel, [17003]) \<and>
   get_chunk_oids example_re example_backend example_ctx example_ordered_planner
     (example_rel\<lparr>fdw_private := None\<rparr>) example_ht =
     Inr (example_rel\<lparr>fdw_private := None\<rparr>, [17004, 17003])"
  by (simp add: get_chunk_oids_def get_explicit_chunk_oids_def should_order_append_def
      example_ctx_def example_re_def example_ordered_planner_def example_planner_def
      example_query_def example_backend_def example_rel_def example_ht_def num_dimensions_def
      chunks_in_def record_var_def int4_array_def)

subsection \<open>Validity of an expansion and the entry point\<close>

text \<open>
  C10. \<^verbatim>\<open>ts_plan_expand_hypertable_valid_hypertable\<close> returns true exactly when the hypertable
  is not NULL, the range-table entry has inheritance enabled, the query has no row marks and
  no result relation. The entry point, called for a relation of the range table whose parent
  relation opens (and, in a build with assertion checking, that is not the result relation),
  raises \<open>unexpected permissions requested\<close> when \<^verbatim>\<open>get_plan_rowmark\<close> finds a row mark for
  the relation and the mark requires a row-share lock.
\<close>

theorem valid_hypertable_and_row_marks:
  "ts_plan_expand_hypertable_valid_hypertable ht query rtindex rte =
     (ht \<noteq> None \<and> inh rte \<and> rowMarks query = [] \<and> resultRelation query = 0) \<and>
   (1 \<le> relid rel \<and> relid rel \<le> length (rtable (parse planner)) \<and>
    heap_open be parent_oid \<noteq> None \<and>
    \<not> (USE_ASSERT_CHECKING be \<and> relid rel = resultRelation (parse planner)) \<and>
    get_plan_rowmark (plan_rowMarks planner) (relid rel) = Some oldrc \<and>
    RowMarkRequiresRowShareLock (markType oldrc) \<longrightarrow>
      ts_plan_expand_hypertable_chunks re be chunk_exclusion_func_oid ht' planner parent_oid
          inhparent rel =
        Inl (Ereport ERRCODE_INTERNAL_ERROR ''unexpected permissions requested'' []))"
proof -
  have valid: "ts_plan_expand_hypertable_valid_hypertable ht query rtindex rte =
      (ht \<noteq> None \<and> inh rte \<and> rowMarks query = [] \<and> resultRelation query = 0)"
    by (auto simp: ts_plan_expand_hypertable_valid_hypertable_def)
  have marks: "ts_plan_expand_hypertable_chunks re be chunk_exclusion_func_oid ht' planner
      parent_oid inhparent rel =
      Inl (Ereport ERRCODE_INTERNAL_ERROR ''unexpected permissions requested'' [])"
    if "1 \<le> relid rel" and "relid rel \<le> length (rtable (parse planner))"
      and "heap_open be parent_oid \<noteq> None"
      and "\<not> (USE_ASSERT_CHECKING be \<and> relid rel = resultRelation (parse planner))"
      and "get_plan_rowmark (plan_rowMarks planner) (relid rel) = Some oldrc"
      and "RowMarkRequiresRowShareLock (markType oldrc)"
    using that by (auto simp: ts_plan_expand_hypertable_chunks_def Let_def)
  show ?thesis using valid marks by blast
qed

text \<open>
  The example query is valid for expansion, the same query as an update of relation 1 is
  not, and a \<open>FOR SHARE\<close> row mark on relation 1 makes the entry point raise.
\<close>

theorem valid_hypertable_and_row_marks_witness:
  "ts_plan_expand_hypertable_valid_hypertable (Some example_ht) example_query 1
     (hd (rtable example_query)) \<and>
   \<not> ts_plan_expand_hypertable_valid_hypertable (Some example_ht)
       (example_query\<lparr>resultRelation := 1\<rparr>) 1 (hd (rtable example_query)) \<and>
   ts_plan_expand_hypertable_chunks example_re example_backend InvalidOid example_ht
     (example_planner\<lparr>plan_rowMarks := [\<lparr>rti = 1, markType = ROW_MARK_SHARE\<rparr>]\<rparr>)
     17000 False example_rel =
     Inl (Ereport ERRCODE_INTERNAL_ERROR ''unexpected permissions requested'' [])"
proof -
  note inst = valid_hypertable_and_row_marks [where rel = example_rel
      and planner = "example_planner\<lparr>plan_rowMarks := [\<lparr>rti = 1, markType = ROW_MARK_SHARE\<rparr>]\<rparr>"
      and be = example_backend and parent_oid = 17000
      and oldrc = "\<lparr>rti = 1, markType = ROW_MARK_SHARE\<rparr>" and re = example_re
      and chunk_exclusion_func_oid = InvalidOid and ht' = example_ht and inhparent = False]
  have accepted: "ts_plan_expand_hypertable_valid_hypertable (Some example_ht) example_query 1
      (hd (rtable example_query))"
    using inst [where ht = "Some example_ht" and query = example_query and rtindex = 1
        and rte = "hd (rtable example_query)", THEN conjunct1]
    by (simp add: example_query_def)
  have rejected: "\<not> ts_plan_expand_hypertable_valid_hypertable (Some example_ht)
      (example_query\<lparr>resultRelation := 1\<rparr>) 1 (hd (rtable example_query))"
    using inst [where ht = "Some example_ht" and query = "example_query\<lparr>resultRelation := 1\<rparr>"
        and rtindex = 1 and rte = "hd (rtable example_query)", THEN conjunct1]
    by (simp add: example_query_def)
  have raised: "ts_plan_expand_hypertable_chunks example_re example_backend InvalidOid example_ht
      (example_planner\<lparr>plan_rowMarks := [\<lparr>rti = 1, markType = ROW_MARK_SHARE\<rparr>]\<rparr>)
      17000 False example_rel =
      Inl (Ereport ERRCODE_INTERNAL_ERROR ''unexpected permissions requested'' [])"
    by (rule inst [THEN conjunct2, rule_format])
      (simp add: example_rel_def example_planner_def example_query_def example_backend_def
        get_plan_rowmark_def)
  show ?thesis using accepted rejected raised by simp
qed

text \<open>
  A whole expansion: \<open>SELECT * FROM metrics WHERE chunks_in(metrics, ARRAY[4, 3])\<close>. The
  function finds \<open>chunks_in\<close> as function 16600, takes the marker call out of the join tree,
  adds an entry for chunk 4 and one for chunk 3 to the range table, the planner's arrays and
  the append list, and gives the relation its partition scheme.
\<close>

lemma example_expansion:
  "ts_plan_expand_hypertable_chunks example_re example_backend InvalidOid example_ht
     (example_planner\<lparr>parse := example_query\<lparr>jointree := FromExpr [RangeTblRef 1]
        [chunks_in record_var (int4_array [Some 4, Some 3])]\<rparr>\<rparr>) 17000 False example_rel =
   Inr (16600,
        example_planner
          \<lparr>parse := example_query
             \<lparr>rtable :=
                [\<lparr>rte_relid = 17000, rte_relkind = CHR ''r'', inh = True, ctename = None,
                  requiredPerms = 2, securityQuals = []\<rparr>,
                 \<lparr>rte_relid = 17004, rte_relkind = CHR ''r'', inh = False, ctename = None,
                  requiredPerms = 0, securityQuals = []\<rparr>,
                 \<lparr>rte_relid = 17003, rte_relkind = CHR ''r'', inh = False, ctename = None,
                  requiredPerms = 0, securityQuals = []\<rparr>],
              jointree := FromExpr [RangeTblRef 1] []\<rparr>,
           simple_rel_array_size := 4,
           simple_rel_array := [None, None, None, None],
           simple_rte_array :=
             [None, None,
              Some \<lparr>rte_relid = 17004, rte_relkind = CHR ''r'', inh = False, ctename = None,
                    requiredPerms = 0, securityQuals = []\<rparr>,
              Some \<lparr>rte_relid = 17003, rte_relkind = CHR ''r'', inh = False, ctename = None,
                    requiredPerms = 0, securityQuals = []\<rparr>],
           append_rel_list :=
             [\<lparr>parent_relid = 1, child_relid = 2, parent_reltype = 18000,
               child_reltype = 18004, translated_vars = [Var 2 1 INT4OID 0],
               parent_reloid = 17000\<rparr>,
              \<lparr>parent_relid = 1, child_relid = 3, parent_reltype = 18000,
               child_reltype = 18003, translated_vars = [Var 3 1 INT4OID 0],
               parent_reloid = 17000\<rparr>]\<rparr>,
        example_rel
          \<lparr>nparts := 2,
           part_scheme := Some \<lparr>partnatts = 1, strategy = CHR ''m''\<rparr>,
           partexprs := [[Var 1 1 INT4OID 0]],
           nullable_partexprs := [[]]\<rparr>)"
  by (simp add: ts_plan_expand_hypertable_chunks_def init_chunk_exclusion_func_def
      get_function_oid_def get_chunk_oids_def get_explicit_chunk_oids_def
      build_hypertable_partition_info_def process_quals_def get_plan_rowmark_def
      example_backend_def example_planner_def example_query_def example_rel_def example_ht_def
      chunks_in_def record_var_def int4_array_def num_dimensions_def
      CHUNK_EXCL_FUNC_NAME_def INTERNAL_SCHEMA_NAME_def ts_chunks_arg_types_def RECORDOID_def
      INT4ARRAYOID_def InvalidOid_def PARTITION_STRATEGY_MULTIDIM_def
      RELKIND_PARTITIONED_TABLE_def Let_def)

subsection \<open>The marker function that cannot be found\<close>

lemma delete_qual_quals_of: "delete_qual q tree tree' \<Longrightarrow> q \<in> set (quals_of tree)"
  by (induction rule: delete_qual.induct) auto

text \<open>
  C8, amended. In a build without assertion checking, when the lookup of \<open>chunks_in\<close> finds
  nothing: \<^verbatim>\<open>init_chunk_exclusion_func\<close> raises nothing and leaves the invalid identifier in
  the static variable; a walk over a tree with no call of the invalid function among its
  qualifiers finds no selector and leaves the tree as it was; and the chunks are resolved
  from the collected restrictions (lines 478-497), not from an explicit list.
\<close>

theorem unavailable_marker_function:
  assumes lookup: "get_function_oid be CHUNK_EXCL_FUNC_NAME INTERNAL_SCHEMA_NAME
                     (length ts_chunks_arg_types) ts_chunks_arg_types = InvalidOid"
    and production: "\<not> USE_ASSERT_CHECKING be"
    and calls: "\<forall>q \<in> set (quals_of tree). \<not> is_chunk_exclusion_func InvalidOid q"
    and walk: "collect_quals_walker be InvalidOid tree ctx = Inr (found, tree', ctx')"
    and start: "chunk_exclusion_func ctx = None"
    and hri: "hri = ts_hypertable_restrict_info_add re
                (ts_hypertable_restrict_info_create re rel ht) planner (restrictions ctx')"
  shows "init_chunk_exclusion_func be InvalidOid = Inr InvalidOid \<and>
         \<not> found \<and> tree' = tree \<and> chunk_exclusion_func ctx' = None \<and>
         get_chunk_oids re be ctx' planner rel ht =
           (case should_order_append re be planner rel ht of
              Some reverse \<Rightarrow>
                Inr (mark_appends_ordered rel,
                     ts_hypertable_restrict_info_get_chunk_oids_ordered re hri ht AccessShareLock
                       reverse)
            | None \<Rightarrow> Inr (rel, find_children_oids re be hri ht AccessShareLock))"
proof -
  have init: "init_chunk_exclusion_func be InvalidOid = Inr InvalidOid"
    using lookup production by (simp add: init_chunk_exclusion_func_def)
  have none: "chunk_exclusion_func ctx' = None"
  proof (cases "chunk_exclusion_func ctx'")
    case None
    then show ?thesis .
  next
    case (Some sel)
    then have "delete_qual sel tree tree'"
      and "is_explicit_selector InvalidOid (relid (ctx_rel ctx)) sel"
      using collect_quals_walker_selector [OF walk start] by auto
    then have "sel \<in> set (quals_of tree)" and "is_chunk_exclusion_func InvalidOid sel"
      by (auto simp: is_explicit_selector_def dest: delete_qual_quals_of)
    then show ?thesis using calls by blast
  qed
  then have unchanged: "\<not> found \<and> tree' = tree"
    using collect_quals_walker_selector [OF walk start] by auto
  have resolved: "get_chunk_oids re be ctx' planner rel ht =
      (case should_order_append re be planner rel ht of
         Some reverse \<Rightarrow>
           Inr (mark_appends_ordered rel,
                ts_hypertable_restrict_info_get_chunk_oids_ordered re hri ht AccessShareLock
                  reverse)
       | None \<Rightarrow> Inr (rel, find_children_oids re be hri ht AccessShareLock))"
    using none by (simp add: get_chunk_oids_def hri mark_appends_ordered_def split: option.splits)
  show ?thesis using init none unchanged resolved by simp
qed

text \<open>
  With an empty table of functions, \<open>WHERE bucket(10, t) > 109\<close> is collected as the
  restriction \<open>t > 109\<close> and the chunks come from the range-exclusion capability.
\<close>

theorem unavailable_marker_function_witness:
  "init_chunk_exclusion_func (example_backend\<lparr>pg_proc := []\<rparr>) InvalidOid = Inr InvalidOid \<and>
   collect_quals_walker (example_backend\<lparr>pg_proc := []\<rparr>) InvalidOid
     (FromExpr [RangeTblRef 1]
        [comparison 521 147 (bucket 16500 INT4OID (int4_const 10) (column_t INT4OID))
           (int4_const 109)])
     example_ctx =
     Inr (False,
          FromExpr [RangeTblRef 1]
            [comparison 521 147 (bucket 16500 INT4OID (int4_const 10) (column_t INT4OID))
               (int4_const 109)],
          example_ctx\<lparr>restrictions :=
            [make_restrictinfo (comparison 521 147 (column_t INT4OID) (int4_const 109))
               True False False 0 {1}]\<rparr>) \<and>
   get_chunk_oids example_re (example_backend\<lparr>pg_proc := []\<rparr>)
     (example_ctx\<lparr>restrictions :=
        [make_restrictinfo (comparison 521 147 (column_t INT4OID) (int4_const 109))
           True False False 0 {1}]\<rparr>)
     example_planner example_rel example_ht = Inr (example_rel, [17004])"
proof -
  note defs = comparison_def bucket_def column_t_def int4_const_def example_ctx_def
    example_rel_def example_planner_def example_backend_def
  have lookup: "get_function_oid (example_backend\<lparr>pg_proc := []\<rparr>) CHUNK_EXCL_FUNC_NAME
      INTERNAL_SCHEMA_NAME (length ts_chunks_arg_types) ts_chunks_arg_types = InvalidOid"
    by (simp add: get_function_oid_def)
  have production: "\<not> USE_ASSERT_CHECKING (example_backend\<lparr>pg_proc := []\<rparr>)"
    by (simp add: example_backend_def)
  have calls: "\<forall>q \<in> set (quals_of (FromExpr [RangeTblRef 1]
      [comparison 521 147 (bucket 16500 INT4OID (int4_const 10) (column_t INT4OID))
         (int4_const 109)])). \<not> is_chunk_exclusion_func InvalidOid q"
    by (simp add: comparison_def)
  have walk: "collect_quals_walker (example_backend\<lparr>pg_proc := []\<rparr>) InvalidOid
      (FromExpr [RangeTblRef 1]
         [comparison 521 147 (bucket 16500 INT4OID (int4_const 10) (column_t INT4OID))
            (int4_const 109)])
      example_ctx =
      Inr (False,
           FromExpr [RangeTblRef 1]
             [comparison 521 147 (bucket 16500 INT4OID (int4_const 10) (column_t INT4OID))
                (int4_const 109)],
           example_ctx\<lparr>restrictions :=
             [make_restrictinfo (comparison 521 147 (column_t INT4OID) (int4_const 109))
                True False False 0 {1}]\<rparr>)"
    by (simp add: defs process_quals_def rewrite_qual_def is_bucket_comparison_def
        strncmp_eq_def lookup_type_cache_def INT4OID_def BTGreaterStrategyNumber_def Let_def)
  have start: "chunk_exclusion_func example_ctx = None"
    by (simp add: example_ctx_def)
  show ?thesis
    using unavailable_marker_function [OF lookup production calls walk start refl,
        where re = example_re and rel = example_rel and ht = example_ht
          and planner = example_planner]
      walk
    by (simp add: example_re_def should_order_append_def example_planner_def example_query_def
        example_backend_def find_children_oids_def make_restrictinfo_def)
qed

text \<open>
  C8 as stated fails: in a build with assertion checking the \<^verbatim>\<open>Assert\<close> of line 63 fails when
  the lookup finds nothing, and with it the entry point.
\<close>

theorem unavailable_marker_function_asserted:
  "get_function_oid (example_backend\<lparr>pg_proc := [], USE_ASSERT_CHECKING := True\<rparr>)
     CHUNK_EXCL_FUNC_NAME INTERNAL_SCHEMA_NAME (length ts_chunks_arg_types) ts_chunks_arg_types =
     InvalidOid \<and>
   init_chunk_exclusion_func (example_backend\<lparr>pg_proc := [], USE_ASSERT_CHECKING := True\<rparr>)
     InvalidOid = Inl (AssertFailure ''chunk_exclusion_func != InvalidOid'') \<and>
   ts_plan_expand_hypertable_chunks example_re
     (example_backend\<lparr>pg_proc := [], USE_ASSERT_CHECKING := True\<rparr>) InvalidOid example_ht
     example_planner 17000 False example_rel =
     Inl (AssertFailure ''chunk_exclusion_func != InvalidOid'')"
  by (simp add: get_function_oid_def init_chunk_exclusion_func_def
      ts_plan_expand_hypertable_chunks_def example_backend_def example_planner_def
      example_query_def example_rel_def get_plan_rowmark_def Let_def)

end
